theory Spec2Isabelle
  imports Main "HOL-Library.Sublist" "HOL-Library.Char_ord" "HOL-Library.List_Lexorder"
begin

section \<open>Text primitives of the Python scripts\<close>

text \<open>
  A Python \<open>str\<close> is modelled as a \<open>string\<close>, one \<open>char\<close> per character of the text
  (code points 0 to 255). \<open>is_space\<close> is the whitespace class shared by \<open>\s\<close> in
  \<open>re\<close> and by \<open>str.strip()\<close>: the characters for which \<open>str.isspace()\<close> holds,
  which in this range are 0x09 to 0x0D, 0x1C to 0x1F, the blank, 0x85 and 0xA0.
\<close>

definition is_space :: "char \<Rightarrow> bool" where
  "is_space c = (c \<in> set [CHR 0x09, CHR 0x0A, CHR 0x0B, CHR 0x0C, CHR 0x0D,
     CHR 0x1C, CHR 0x1D, CHR 0x1E, CHR 0x1F, CHR 0x20, CHR 0x85, CHR 0xA0])"

definition strip :: "string \<Rightarrow> string" where
  \<comment> \<open>\<open>s.strip()\<close>: whitespace removed at both ends\<close>
  "strip s = rev (dropWhile is_space (rev (dropWhile is_space s)))"

fun split_on :: "char \<Rightarrow> string \<Rightarrow> string list" where
  \<comment> \<open>\<open>s.split(c)\<close> for a one-character separator: never the empty list\<close>
  "split_on c [] = [[]]"
| "split_on c (x # xs) =
     (if x = c then [] # split_on c xs
      else (case split_on c xs of [] \<Rightarrow> [[x]] | l # ls \<Rightarrow> (x # l) # ls))"

fun lazy_until :: "string \<Rightarrow> string \<Rightarrow> string option" where
  \<comment> \<open>the lazy group of \<open>(.*?)pat\<close> under DOTALL: the text before the first place
      where \<open>pat\<close> occurs, \<open>None\<close> when it occurs nowhere\<close>
  "lazy_until pat [] = (if pat = [] then Some [] else None)"
| "lazy_until pat (c # cs) =
     (if prefix pat (c # cs) then Some []
      else map_option ((#) c) (lazy_until pat cs))"

section \<open>Header block parser\<close>

text \<open>
  The three scripts share the expression
  \<^verbatim>\<open>re.match(r'^---\s*\n(.*?)\n---', content, re.DOTALL)\<close>.
  \<open>after_dashes\<close> is the backtracking search for \<^verbatim>\<open>\s*\n(.*?)\n---\<close> on the text that
  follows the opening dashes: the greedy \<^verbatim>\<open>\s*\<close> first takes the next whitespace character
  and goes on; only when that fails does it stop in front of the character, which then has
  to be the line feed, and the lazy group runs up to the first \<^verbatim>\<open>\n---\<close> behind it.
  The result is group 1 of the match.
\<close>

fun after_dashes :: "string \<Rightarrow> string option" where
  "after_dashes [] = None"
| "after_dashes (c # cs) =
     (if is_space c then
        (case after_dashes cs of
           Some g \<Rightarrow> Some g
         | None \<Rightarrow> if c = CHR ''\<newline>'' then lazy_until ''\<newline>---'' cs else None)
      else None)"

definition match_header :: "string \<Rightarrow> string option" where
  "match_header content =
     (if prefix ''---'' content then after_dashes (drop 3 content) else None)"

type_synonym frontmatter = "string \<rightharpoonup> string"

definition line_key :: "string \<Rightarrow> string" where
  \<comment> \<open>\<open>line.split(':', 1)[0].strip()\<close>\<close>
  "line_key line = strip (takeWhile (\<lambda>c. c \<noteq> CHR '':'') line)"

definition line_value :: "string \<Rightarrow> string" where
  \<comment> \<open>\<open>line.split(':', 1)[1].strip()\<close>: the text behind the first colon\<close>
  "line_value line = strip (tl (dropWhile (\<lambda>c. c \<noteq> CHR '':'') line))"

definition add_line :: "string \<Rightarrow> frontmatter \<Rightarrow> frontmatter" where
  \<comment> \<open>the loop body: \<open>if ':' in line: key, value = line.split(':', 1); ...\<close>\<close>
  "add_line line fm =
     (if CHR '':'' \<in> set line then fm(line_key line \<mapsto> line_value line) else fm)"

definition parse_lines :: "string \<Rightarrow> frontmatter" where
  \<comment> \<open>\<open>for line in match.group(1).split('\n')\<close>, starting from the empty dict\<close>
  "parse_lines block = fold add_line (split_on CHR ''\<newline>'' block) Map.empty"

definition parse_frontmatter_index :: "string \<Rightarrow> frontmatter" where
  \<comment> \<open>\<open>parse_frontmatter\<close> of generate-index.py\<close>
  "parse_frontmatter_index content =
     (case match_header content of None \<Rightarrow> Map.empty | Some block \<Rightarrow> parse_lines block)"

definition parse_frontmatter_snapshot :: "string \<Rightarrow> frontmatter" where
  \<comment> \<open>\<open>parse_frontmatter\<close> of generate-snapshot.py\<close>
  "parse_frontmatter_snapshot content =
     (case match_header content of None \<Rightarrow> Map.empty | Some block \<Rightarrow> parse_lines block)"

definition parse_frontmatter_validate :: "string \<Rightarrow> frontmatter option" where
  \<comment> \<open>\<open>parse_frontmatter\<close> of validate-spec.py: \<open>None\<close> when the expression does not match\<close>
  "parse_frontmatter_validate content =
     (case match_header content of None \<Rightarrow> None | Some block \<Rightarrow> Some (parse_lines block))"

section \<open>Spec validator\<close>

definition REQUIRED_FIELDS :: "string list" where
  "REQUIRED_FIELDS = [''title'', ''status'', ''domain'', ''issue'', ''created'', ''updated'']"

definition VALID_STATUSES :: "string list" where
  "VALID_STATUSES = [''active'', ''deprecated'', ''superseded'', ''archived'']"

definition PLACEHOLDER_ISSUES :: "string list" where
  \<comment> \<open>the list literal tested in \<open>validate_spec\<close>\<close>
  "PLACEHOLDER_ISSUES = [''PROJ-XXX'', ''[PROJ-XXX]'', ''TODO'', '''', ''{{ISSUE}}'']"

definition missing_field_error :: "string \<Rightarrow> string \<Rightarrow> string" where
  "missing_field_error field path =
     ''Missing required field '' @ [CHR 0x27] @ field @ [CHR 0x27] @ '' in '' @ path"

definition invalid_status_error :: "string \<Rightarrow> string \<Rightarrow> string" where
  "invalid_status_error status path =
     ''Invalid status '' @ [CHR 0x27] @ status @ [CHR 0x27] @ '' in '' @ path
       @ ''. Must be one of: ['active', 'deprecated', 'superseded', 'archived']''"

definition placeholder_issue_error :: "string \<Rightarrow> string" where
  "placeholder_issue_error path =
     ''Issue field is placeholder in '' @ path @ ''. Must reference actual issue.''"

definition field_missing :: "frontmatter \<Rightarrow> string \<Rightarrow> bool" where
  \<comment> \<open>\<open>field not in fm or not fm[field]\<close>\<close>
  "field_missing fm field = (case fm field of None \<Rightarrow> True | Some v \<Rightarrow> v = [])"

definition check_fields :: "string \<Rightarrow> frontmatter \<Rightarrow> string list \<Rightarrow> string list" where
  "check_fields path fm errors =
     fold (\<lambda>field errs. if field_missing fm field
                         then errs @ [missing_field_error field path] else errs)
          REQUIRED_FIELDS errors"

definition check_status :: "string \<Rightarrow> frontmatter \<Rightarrow> string list \<Rightarrow> string list" where
  "check_status path fm errors =
     (case fm ''status'' of
        None \<Rightarrow> errors
      | Some status \<Rightarrow> if status \<notin> set VALID_STATUSES
                       then errors @ [invalid_status_error status path] else errors)"

definition check_issue :: "string \<Rightarrow> frontmatter \<Rightarrow> string list \<Rightarrow> string list" where
  "check_issue path fm errors =
     (case fm ''issue'' of
        None \<Rightarrow> errors
      | Some issue \<Rightarrow> if issue \<in> set PLACEHOLDER_ISSUES
                      then errors @ [placeholder_issue_error path] else errors)"

text \<open>
  The files the validator can read are a map from path to content: \<open>fs path = None\<close> is
  \<open>not path.exists()\<close>, and \<open>fs path = Some content\<close> gives \<open>path.read_text()\<close>.
\<close>

definition validate_spec :: "(string \<rightharpoonup> string) \<Rightarrow> string \<Rightarrow> string list" where
  "validate_spec fs path =
     (case fs path of
        None \<Rightarrow> [''File not found: '' @ path]
      | Some content \<Rightarrow>
          (case parse_frontmatter_validate content of
             None \<Rightarrow> [''Missing frontmatter in '' @ path]
           | Some fm \<Rightarrow> check_issue path fm (check_status path fm (check_fields path fm []))))"

section \<open>Spec files found on disk\<close>

text \<open>
  One entry of \<open>specs_dir.rglob('*.md')\<close>, with what the scripts read from it: \<open>p.name\<close>,
  \<open>p.stem\<close>, \<open>str(p.relative_to(specs_dir))\<close> and \<open>p.read_text()\<close>. The order of the
  list is the order of enumeration.
\<close>

record md_file =
  file_name :: string
  file_stem :: string
  file_rel :: string
  file_text :: string

definition RESERVED_NAMES :: "string list" where
  "RESERVED_NAMES = [''INDEX.md'', ''SNAPSHOT.md'', ''glossary.md'']"

definition get_default :: "frontmatter \<Rightarrow> string \<Rightarrow> string \<Rightarrow> string" where
  \<comment> \<open>\<open>fm.get(key, default)\<close>\<close>
  "get_default fm key dflt = (case fm key of None \<Rightarrow> dflt | Some v \<Rightarrow> v)"

fun join :: "string \<Rightarrow> string list \<Rightarrow> string" where
  \<comment> \<open>\<open>sep.join(lines)\<close>\<close>
  "join sep [] = []"
| "join sep [l] = l"
| "join sep (l # m # ls) = l @ sep @ join sep (m # ls)"

function str_nat :: "nat \<Rightarrow> string" where
  \<comment> \<open>\<open>str(n)\<close> of a length: decimal digits\<close>
  "str_nat n =
     (if n < 10 then [char_of (48 + n)]
      else str_nat (n div 10) @ [char_of (48 + n mod 10)])"
  by pat_completeness auto
termination
  by (relation "measure id") auto

declare str_nat.simps [simp del]

section \<open>Index builder\<close>

record index_entry =
  e_title :: string
  e_type :: string
  e_path :: string
  e_domain :: string
  e_issue :: string
  e_created :: string

definition index_specs :: "md_file list \<Rightarrow> md_file list" where
  \<comment> \<open>\<open>[p for p in specs_dir.rglob('*.md') if p.name not in (...)]\<close>\<close>
  "index_specs found = filter (\<lambda>p. file_name p \<notin> set RESERVED_NAMES) found"

definition index_status :: "md_file \<Rightarrow> string" where
  \<comment> \<open>\<open>fm.get('status', 'active')\<close>\<close>
  "index_status spec_path =
     get_default (parse_frontmatter_index (file_text spec_path)) ''status'' ''active''"

definition index_entry_of :: "md_file \<Rightarrow> index_entry" where
  "index_entry_of spec_path =
     (let fm = parse_frontmatter_index (file_text spec_path)
      in \<lparr>e_title = get_default fm ''title'' (file_stem spec_path),
          e_type = get_default fm ''type'' ''feature'',
          e_path = file_rel spec_path,
          e_domain = get_default fm ''domain'' ''Unknown'',
          e_issue = get_default fm ''issue'' [],
          e_created = get_default fm ''created'' []\<rparr>)"

definition categorize :: "md_file list \<Rightarrow> string \<Rightarrow> index_entry list" where
  \<comment> \<open>the \<open>defaultdict(list)\<close> is a total function with default \<open>[]\<close>\<close>
  "categorize specs =
     fold (\<lambda>spec_path by_status.
             by_status(index_status spec_path :=
                         by_status (index_status spec_path) @ [index_entry_of spec_path]))
          specs (\<lambda>_. [])"

definition index_row :: "index_entry \<Rightarrow> string" where
  "index_row spec =
     (let issue_link = (if e_issue spec \<noteq> [] then ''['' @ e_issue spec @ ''](#)'' else [])
      in ''| '' @ e_title spec @ '' | '' @ e_type spec @ '' | ['' @ e_path spec @ '']('' @ e_path spec
           @ '') | '' @ e_domain spec @ '' | '' @ issue_link @ '' | '' @ e_created spec @ '' |'')"

definition index_rows :: "index_entry list \<Rightarrow> string list" where
  \<comment> \<open>\<open>for spec in sorted(bucket, key=lambda x: x['created'])\<close>: a stable sort on strings\<close>
  "index_rows bucket = map index_row (sort_key e_created bucket)"

definition index_lines :: "string \<Rightarrow> md_file list \<Rightarrow> string list" where
  \<comment> \<open>the list \<open>lines\<close> of \<open>generate_index\<close>; \<open>today\<close> is the formatted current date\<close>
  "index_lines today found =
     (let specs = index_specs found;
          by_status = categorize specs;
          total = length specs;
          active = length (by_status ''active'');
          deprecated = length (by_status ''deprecated'');
          archived = length (by_status ''archived'')
      in [''# Spec Index'',
          [],
          ''Last updated: '' @ today,
          [],
          ''Total: '' @ str_nat total @ '' specs (Active: '' @ str_nat active
            @ '', Deprecated: '' @ str_nat deprecated @ '', Archived: '' @ str_nat archived @ '')'',
          []]
         @ [''## Active Changes'',
            [],
            ''| Change | Type | Spec | Domain | Issue | Since |'',
            ''|--------|------|------|--------|-------|-------|'']
         @ (if by_status ''active'' \<noteq> [] then index_rows (by_status ''active'')
            else [''| *No active changes yet* | | | | | |''])
         @ [[]]
         @ [''## Deprecated'', []]
         @ (if by_status ''deprecated'' \<noteq> []
            then [''| Change | Type | Spec | Domain | Issue | Deprecated |'',
                  ''|--------|------|------|--------|-------|------------|'']
                 @ index_rows (by_status ''deprecated'')
            else [''*None*''])
         @ [[]]
         @ [''## Archived'', []]
         @ (if by_status ''archived'' \<noteq> []
            then [''| Change | Type | Spec | Domain | Issue | Archived |'',
                  ''|--------|------|------|--------|-------|----------|'']
                 @ index_rows (by_status ''archived'')
            else [''*None*'']))"

definition generate_index :: "string \<Rightarrow> md_file list \<Rightarrow> string" where
  "generate_index today found = join ''\<newline>'' (index_lines today found) @ ''\<newline>''"

section \<open>Snapshot builder\<close>

text \<open>
  \<^verbatim>\<open>re.sub(r'^---\s*\n.*?\n---\s*\n', '', content, flags=re.DOTALL)\<close>: without MULTILINE the
  anchor holds at the start of the text only, so at most the one match there is removed.
  \<open>ws_newline\<close> is the closing \<^verbatim>\<open>\s*\n\<close>, \<open>lazy_close\<close> is \<^verbatim>\<open>.*?\n---\s*\n\<close> and
  \<open>header_end\<close> the whole expression behind the opening dashes; each returns the text
  left behind the match, trying the alternatives in the order of the backtracking matcher
  (greedy: longer first; lazy: shorter first).
\<close>

fun ws_newline :: "string \<Rightarrow> string option" where
  "ws_newline [] = None"
| "ws_newline (c # cs) =
     (if is_space c then
        (case ws_newline cs of
           Some r \<Rightarrow> Some r
         | None \<Rightarrow> if c = CHR ''\<newline>'' then Some cs else None)
      else None)"

fun lazy_close :: "string \<Rightarrow> string option" where
  "lazy_close [] = None"
| "lazy_close (c # cs) =
     (case (if prefix ''\<newline>---'' (c # cs) then ws_newline (drop 4 (c # cs)) else None) of
        Some r \<Rightarrow> Some r
      | None \<Rightarrow> lazy_close cs)"

fun header_end :: "string \<Rightarrow> string option" where
  "header_end [] = None"
| "header_end (c # cs) =
     (if is_space c then
        (case header_end cs of
           Some r \<Rightarrow> Some r
         | None \<Rightarrow> if c = CHR ''\<newline>'' then lazy_close cs else None)
      else None)"

definition remove_frontmatter :: "string \<Rightarrow> string" where
  "remove_frontmatter content =
     (if prefix ''---'' content
      then (case header_end (drop 3 content) of Some r \<Rightarrow> r | None \<Rightarrow> content)
      else content)"

text \<open>
  \<^verbatim>\<open>re.search(r'## Overview\s*\n(.*?)(?=\n##|$)', content, re.DOTALL)\<close>.
  \<open>overview_group\<close> is the lazy group with its lookahead: it stops at the first place
  where \<^verbatim>\<open>\n##\<close> follows or where \<^verbatim>\<open>$\<close> holds, which without MULTILINE is the end of the
  text or the place in front of a line feed that ends the text. \<open>overview_body\<close> is
  \<^verbatim>\<open>\s*\n(.*?)(?=\n##|$)\<close> behind the heading text, and \<open>search_overview\<close> tries the start
  positions from left to right, as \<open>re.search\<close> does. The result is group 1.
\<close>

fun overview_group :: "string \<Rightarrow> string" where
  "overview_group [] = []"
| "overview_group (c # cs) =
     (if prefix ''\<newline>##'' (c # cs) \<or> c # cs = ''\<newline>'' then []
      else c # overview_group cs)"

fun overview_body :: "string \<Rightarrow> string option" where
  "overview_body [] = None"
| "overview_body (c # cs) =
     (if is_space c then
        (case overview_body cs of
           Some g \<Rightarrow> Some g
         | None \<Rightarrow> if c = CHR ''\<newline>'' then Some (overview_group cs) else None)
      else None)"

fun search_overview :: "string \<Rightarrow> string option" where
  "search_overview [] = None"
| "search_overview (c # cs) =
     (case (if prefix ''## Overview'' (c # cs) then overview_body (drop 11 (c # cs)) else None) of
        Some g \<Rightarrow> Some g
      | None \<Rightarrow> search_overview cs)"

definition extract_overview :: "string \<Rightarrow> string" where
  "extract_overview content =
     (case search_overview (remove_frontmatter content) of
        Some g \<Rightarrow> strip g
      | None \<Rightarrow> [])"

record snapshot_spec =
  s_title :: string
  s_path :: string
  s_domain :: string
  s_issue :: string
  s_overview :: string
  s_content :: string

definition snapshot_entry_of :: "md_file \<Rightarrow> snapshot_spec" where
  "snapshot_entry_of spec_path =
     (let content = file_text spec_path; fm = parse_frontmatter_snapshot content
      in \<lparr>s_title = get_default fm ''title'' (file_stem spec_path),
          s_path = file_rel spec_path,
          s_domain = get_default fm ''domain'' ''Unknown'',
          s_issue = get_default fm ''issue'' [],
          s_overview = extract_overview content,
          s_content = content\<rparr>)"

definition snapshot_specs :: "md_file list \<Rightarrow> snapshot_spec list" where
  \<comment> \<open>the first loop of \<open>generate_snapshot\<close>: the list \<open>specs\<close> the digest is rendered from\<close>
  "snapshot_specs found =
     fold (\<lambda>spec_path specs.
             if file_name spec_path \<in> set RESERVED_NAMES then specs
             else if parse_frontmatter_snapshot (file_text spec_path) ''status'' = Some ''active''
                  then specs @ [snapshot_entry_of spec_path]
                  else specs)
          found []"

section \<open>Project scaffolder: shared parts\<close>

text \<open>
  The two scaffolders are \<open>skills/scaffolding/scaffolding.py\<close> (its functions carry the
  prefix \<open>scaffolding_\<close> here) and \<open>skills/scaffold/scaffold.py\<close> (prefix \<open>scaffold_\<close>).
  \<open>substitute_variables\<close>, \<open>copy_template_file\<close> and \<open>create_directory\<close> are the same
  text in both files and are modelled once.

  The configuration is the \<open>Config\<close> dictionary after \<open>main\<close> has filled the defaults.
  The template side is read only and is given by what the file system answers:
  \<open>path_exists\<close> for \<open>p.exists()\<close>, \<open>is_file\<close> for \<open>p.is_file()\<close>, \<open>read_text\<close> for the
  content of a file, and \<open>rglob dir\<close> for the entries of \<open>dir.rglob("*")\<close>, each as its
  path relative to \<open>dir\<close>. The target side is the tree below \<open>target_dir\<close>: whether the
  target directory itself exists, the directories below it and the files below it with
  their content, all by their path relative to the target. Paths are the strings the code
  builds; what \<open>pathlib\<close> does to doubled or trailing separators and to dot components is
  not modelled, and neither are the errors of the operating system nor the progress lines
  printed on standard output.
\<close>

record Config_common =
  project_name :: string
  project_description :: string
  primary_domain :: string
  target_dir :: string
  components :: "string list"

record Config = Config_common +
  skills_dir :: string

record Config_scaffold = Config_common +
  template_dir :: string

record template_tree =
  path_exists :: "string \<Rightarrow> bool"
  is_file :: "string \<Rightarrow> bool"
  read_text :: "string \<Rightarrow> string"
  rglob :: "string \<Rightarrow> string list"

record disk =
  target_made :: bool
  dirs :: "string set"
  files :: "string \<rightharpoonup> string"

record scaffold_state =
  on_disk :: disk
  created_files :: "string list"
  created_dirs :: "string list"

record scaffold_result =
  success :: bool
  result_target_dir :: string
  n_created_dirs :: nat
  n_created_files :: nat
  result_files :: "string list"

definition path_join :: "string \<Rightarrow> string \<Rightarrow> string" where
  \<comment> \<open>\<open>a / b\<close> for a relative \<open>b\<close>\<close>
  "path_join a b = a @ ''/'' @ b"

definition path_suffix :: "string \<Rightarrow> string" where
  \<comment> \<open>\<open>p.suffix\<close>: from the last dot of the final component, when that dot is neither
      its first nor its last character\<close>
  "path_suffix p =
     (let name = rev (takeWhile (\<lambda>c. c \<noteq> CHR ''/'') (rev p));
          ext = rev (takeWhile (\<lambda>c. c \<noteq> CHR ''.'') (rev name))
      in if CHR ''.'' \<in> set name \<and> ext \<noteq> [] \<and> length ext + 1 < length name
         then CHR ''.'' # ext else [])"

fun dir_chain_from :: "string \<Rightarrow> string \<Rightarrow> string list" where
  "dir_chain_from acc [] = [acc]"
| "dir_chain_from acc (c # cs) =
     (if c = CHR ''/'' then acc # dir_chain_from (acc @ [c]) cs
      else dir_chain_from (acc @ [c]) cs)"

definition dir_chain :: "string \<Rightarrow> string list" where
  \<comment> \<open>a relative path with all its ancestors below the target: \<open>a/b/c\<close> gives
      \<open>a\<close>, \<open>a/b\<close>, \<open>a/b/c\<close>\<close>
  "dir_chain d = filter (\<lambda>p. p \<noteq> []) (dir_chain_from [] d)"

definition mkdir :: "string list \<Rightarrow> disk \<Rightarrow> disk" where
  \<comment> \<open>\<open>mkdir(parents=True, exist_ok=True)\<close>: the target and the given chain exist afterwards\<close>
  "mkdir chain dk = dk\<lparr>target_made := True, dirs := dirs dk \<union> set chain\<rparr>"

fun replace_from :: "nat \<Rightarrow> string \<Rightarrow> string \<Rightarrow> string \<Rightarrow> string" where
  \<comment> \<open>the first argument counts the characters of a replaced occurrence still to skip\<close>
  "replace_from n old new [] = []"
| "replace_from (Suc n) old new (c # cs) = replace_from n old new cs"
| "replace_from 0 old new (c # cs) =
     (if prefix old (c # cs) then new @ replace_from (length old - 1) old new cs
      else c # replace_from 0 old new cs)"

definition replace :: "string \<Rightarrow> string \<Rightarrow> string \<Rightarrow> string" where
  \<comment> \<open>\<open>s.replace(old, new)\<close> for a non-empty \<open>old\<close>: every occurrence, from the left,
      without overlap\<close>
  "replace old new s = replace_from 0 old new s"

definition substitute_variables :: "string \<Rightarrow> 'a Config_common_scheme \<Rightarrow> string" where
  "substitute_variables content config =
     replace ''{{PRIMARY_DOMAIN}}'' (primary_domain config)
       (replace ''{{PROJECT_DESCRIPTION}}'' (project_description config)
          (replace ''{{PROJECT_NAME}}'' (project_name config) content))"

definition SUBSTITUTED_SUFFIXES :: "string list" where
  "SUBSTITUTED_SUFFIXES =
     [''.md'', ''.json'', ''.yaml'', ''.yml'', ''.ts'', ''.tsx'', ''.html'', ''.css'', ''.js'']"

definition copy_template_file ::
  "template_tree \<Rightarrow> string \<Rightarrow> string \<Rightarrow> 'a Config_common_scheme \<Rightarrow> disk \<Rightarrow> disk" where
  \<comment> \<open>\<open>src\<close> is a template path, \<open>dest\<close> a path below the target\<close>
  "copy_template_file tmpl src dest config dk =
     (let dk1 = mkdir (butlast (dir_chain dest)) dk;
          content = (if path_suffix src \<in> set SUBSTITUTED_SUFFIXES
                     then substitute_variables (read_text tmpl src) config
                     else read_text tmpl src)
      in dk1\<lparr>files := (files dk1)(dest \<mapsto> content)\<rparr>)"

definition run_if :: "bool \<Rightarrow> ('s \<Rightarrow> 's) \<Rightarrow> 's \<Rightarrow> 's" where
  \<comment> \<open>\<open>if c: block\<close> on the state: the block runs when the test holds\<close>
  "run_if c block st = (if c then block st else st)"

definition create_directory :: "string \<Rightarrow> scaffold_state \<Rightarrow> scaffold_state" where
  \<comment> \<open>\<open>create_directory(target / d, config)\<close> followed by \<open>created_dirs.append(d)\<close>\<close>
  "create_directory d st =
     st\<lparr>on_disk := mkdir (dir_chain d) (on_disk st), created_dirs := created_dirs st @ [d]\<rparr>"

definition write_text :: "string \<Rightarrow> string \<Rightarrow> scaffold_state \<Rightarrow> scaffold_state" where
  \<comment> \<open>\<open>(target / p).write_text(content)\<close> followed by \<open>created_files.append(p)\<close>\<close>
  "write_text p content st =
     st\<lparr>on_disk := (on_disk st)\<lparr>files := (files (on_disk st))(p \<mapsto> content)\<rparr>,
        created_files := created_files st @ [p]\<rparr>"

definition copy_if_exists ::
  "template_tree \<Rightarrow> 'a Config_common_scheme \<Rightarrow> string \<Rightarrow> string \<times> string
     \<Rightarrow> scaffold_state \<Rightarrow> scaffold_state" where
  \<comment> \<open>\<open>src = dir / src_name\<close>; \<open>if src.exists(): copy_template_file(...)\<close>;
      \<open>created_files.append(dest_path)\<close>\<close>
  "copy_if_exists tmpl config dir pair st =
     (let src = path_join dir (fst pair); dest_path = snd pair
      in if path_exists tmpl src
         then st\<lparr>on_disk := copy_template_file tmpl src dest_path config (on_disk st),
                 created_files := created_files st @ [dest_path]\<rparr>
         else st)"

definition copy_tree ::
  "template_tree \<Rightarrow> 'a Config_common_scheme \<Rightarrow> string \<Rightarrow> string
     \<Rightarrow> scaffold_state \<Rightarrow> scaffold_state" where
  \<comment> \<open>\<open>for src_file in root.rglob("*"): if src_file.is_file(): ...\<close> into
      \<open>target / dest_root / rel_path\<close>\<close>
  "copy_tree tmpl config root dest_root st =
     fold (\<lambda>rel_path st.
             if is_file tmpl (path_join root rel_path)
             then st\<lparr>on_disk := copy_template_file tmpl (path_join root rel_path)
                                   (path_join dest_root rel_path) config (on_disk st),
                     created_files := created_files st @ [path_join dest_root rel_path]\<rparr>
             else st)
          (rglob tmpl root) st"

definition GITIGNORE :: string where
  "GITIGNORE = ''node_modules/\<newline>.env\<newline>.DS_Store\<newline>dist/\<newline>*.log\<newline>''"

definition SPECS_DIRS :: "string list" where
  "SPECS_DIRS = [''specs'', ''specs/domain'', ''specs/domain/definitions'',
     ''specs/domain/use-cases'', ''specs/architecture'', ''specs/changes'', ''specs/external'']"

definition CONFIG_DIRS :: "string list" where
  "CONFIG_DIRS = [''components/config'', ''components/config/schemas'']"

definition TESTING_DIRS :: "string list" where
  "TESTING_DIRS = [''components/testing/tests/integration'', ''components/testing/tests/component'',
     ''components/testing/tests/e2e'', ''components/testing/testsuites'']"

definition PROJECT_FILES :: "(string \<times> string) list" where
  "PROJECT_FILES = [(''README.md'', ''README.md''), (''CLAUDE.md'', ''CLAUDE.md''),
     (''package.json'', ''package.json'')]"

definition SPEC_FILES :: "(string \<times> string) list" where
  "SPEC_FILES = [(''INDEX.md'', ''specs/INDEX.md''), (''SNAPSHOT.md'', ''specs/SNAPSHOT.md''),
     (''glossary.md'', ''specs/domain/glossary.md'')]"

definition CONFIG_FILES :: "string list" where
  "CONFIG_FILES = [''config.yaml'', ''config-local.yaml'', ''config-testing.yaml'',
     ''config-production.yaml'', ''schemas/schema.json'', ''schemas/ops-schema.json'',
     ''schemas/app-schema.json'']"

definition CONTRACT_FILES :: "string list" where
  "CONTRACT_FILES = [''package.json'', ''openapi.yaml'']"

definition under :: "string \<Rightarrow> string list \<Rightarrow> (string \<times> string) list" where
  \<comment> \<open>source name and destination \<open>f"{dest}/{cf}"\<close> for each listed file\<close>
  "under dest names = map (\<lambda>cf. (cf, path_join dest cf)) names"

definition arch_header :: "string \<Rightarrow> string" where
  "arch_header pname =
     ''# Architecture Overview\<newline>\<newline>This document describes the architecture of ''
       @ pname @ ''.\<newline>\<newline>## Components\<newline>\<newline>''"

definition ci_content :: string where
  \<comment> \<open>the literal written to \<open>.github/workflows/ci.yaml\<close>, the same text in both files\<close>
  "ci_content =
     ''name: CI\<newline>''
       @ ''\<newline>''
       @ ''on:\<newline>''
       @ ''  push:\<newline>''
       @ ''    branches: [main]\<newline>''
       @ ''  pull_request:\<newline>''
       @ ''    branches: [main]\<newline>''
       @ ''\<newline>''
       @ ''jobs:\<newline>''
       @ ''  build:\<newline>''
       @ ''    runs-on: ubuntu-latest\<newline>''
       @ ''\<newline>''
       @ ''    steps:\<newline>''
       @ ''      - uses: actions/checkout@v4\<newline>''
       @ ''\<newline>''
       @ ''      - name: Setup Node.js\<newline>''
       @ ''        uses: actions/setup-node@v4\<newline>''
       @ ''        with:\<newline>''
       @ ''          node-version: '20'\<newline>''
       @ ''          cache: 'npm'\<newline>''
       @ ''\<newline>''
       @ ''      - name: Install dependencies\<newline>''
       @ ''        run: npm install --workspaces\<newline>''
       @ ''\<newline>''
       @ ''      - name: Type check\<newline>''
       @ ''        run: npm run typecheck\<newline>''
       @ ''\<newline>''
       @ ''      - name: Lint\<newline>''
       @ ''        run: npm run lint\<newline>''
       @ ''\<newline>''
       @ ''      - name: Test\<newline>''
       @ ''        run: npm run test\<newline>''
       @ ''\<newline>''
       @ ''      - name: Build\<newline>''
       @ ''        run: npm run build\<newline>''"

definition finish :: "string \<Rightarrow> scaffold_state \<Rightarrow> scaffold_result \<times> disk" where
  \<comment> \<open>the returned dictionary, with the tree left on disk\<close>
  "finish target st =
     (\<lparr>success = True, result_target_dir = target,
       n_created_dirs = length (created_dirs st),
       n_created_files = length (created_files st),
       result_files = created_files st\<rparr>, on_disk st)"

definition start :: "disk \<Rightarrow> scaffold_state" where
  \<comment> \<open>\<open>target.mkdir(parents=True, exist_ok=True)\<close> with the two empty lists\<close>
  "start dk = \<lparr>on_disk = mkdir [] dk, created_files = [], created_dirs = []\<rparr>"

section \<open>Project scaffolder: scaffolding.py\<close>

record ParsedComponent =
  component_type :: string
  name :: "string option"
  dir_name :: string

definition parse_component :: "string \<Rightarrow> ParsedComponent" where
  "parse_component component =
     (if CHR '':'' \<in> set component
      then (let ctype = takeWhile (\<lambda>c. c \<noteq> CHR '':'') component;
                cname = tl (dropWhile (\<lambda>c. c \<noteq> CHR '':'') component)
            in \<lparr>component_type = ctype, name = Some cname, dir_name = ctype @ ''-'' @ cname\<rparr>)
      else \<lparr>component_type = component, name = None, dir_name = component\<rparr>)"

definition get_components_by_type :: "string list \<Rightarrow> string \<Rightarrow> ParsedComponent list" where
  "get_components_by_type comps ctype =
     map parse_component (filter (\<lambda>c. component_type (parse_component c) = ctype) comps)"

definition component_types_of :: "string list \<Rightarrow> string set" where
  \<comment> \<open>\<open>{pc["component_type"] for pc in parsed_components}\<close>\<close>
  "component_types_of comps = set (map (\<lambda>c. component_type (parse_component c)) comps)"

definition scaffolding_server_subdirs :: "string \<Rightarrow> string list" where
  "scaffolding_server_subdirs dn =
     [''components/'' @ dn @ ''/src/operator'',
      ''components/'' @ dn @ ''/src/config'',
      ''components/'' @ dn @ ''/src/controller/http_handlers'',
      ''components/'' @ dn @ ''/src/model/definitions'',
      ''components/'' @ dn @ ''/src/model/use-cases'',
      ''components/'' @ dn @ ''/src/dal'']"

definition webapp_subdirs :: "string \<Rightarrow> string list" where
  "webapp_subdirs dn =
     [''components/'' @ dn @ ''/src/pages'',
      ''components/'' @ dn @ ''/src/components'',
      ''components/'' @ dn @ ''/src/viewmodels'',
      ''components/'' @ dn @ ''/src/models'',
      ''components/'' @ dn @ ''/src/services'',
      ''components/'' @ dn @ ''/src/stores'',
      ''components/'' @ dn @ ''/src/types'',
      ''components/'' @ dn @ ''/src/utils'']"

definition scaffolding_directories :: "string list \<Rightarrow> scaffold_state \<Rightarrow> scaffold_state" where
  \<comment> \<open>Step 2 of \<open>scaffold_project\<close>\<close>
  "scaffolding_directories components_raw st0 =
     (let component_types = component_types_of components_raw;
          st = fold create_directory SPECS_DIRS st0;
          st = fold create_directory CONFIG_DIRS st;
          st = run_if (''contract'' \<in> component_types)
                 (create_directory ''components/contract'') st;
          st = fold (\<lambda>server. fold create_directory (scaffolding_server_subdirs (dir_name server)))
                    (get_components_by_type components_raw ''server'') st;
          st = fold (\<lambda>webapp. fold create_directory (webapp_subdirs (dir_name webapp)))
                    (get_components_by_type components_raw ''webapp'') st;
          st = run_if (''helm'' \<in> component_types) (create_directory ''components/helm'') st;
          st = run_if (''testing'' \<in> component_types) (fold create_directory TESTING_DIRS) st;
          st = run_if (''cicd'' \<in> component_types) (create_directory ''.github/workflows'') st
      in st)"

text \<open>
  \<open>str.title()\<close> is Python's own: it maps a character that follows no cased character to
  its title case and one that follows a cased character to its lower case, by the Unicode
  tables, and its result can leave the character range of this model (the title case of
  0xFF is U+0178). It is therefore a parameter \<open>title\<close> of the functions below, which hold
  for every such function.
\<close>

definition display_name :: "ParsedComponent \<Rightarrow> string \<Rightarrow> string" where
  \<comment> \<open>\<open>server["name"] or "Server"\<close>: the default for \<open>None\<close> and for the empty name\<close>
  "display_name pc dflt = (case name pc of None \<Rightarrow> dflt | Some n \<Rightarrow> if n = [] then dflt else n)"

definition STATIC_DESCRIPTIONS :: "(string \<times> string) list" where
  "STATIC_DESCRIPTIONS =
     [(''contract'', ''- **Contract** (`components/contract/`): OpenAPI specifications and type generation''),
      (''config'', ''- **Config** (`components/config/`): YAML-based configuration management''),
      (''helm'', ''- **Helm** (`components/helm/`): Kubernetes deployment charts''),
      (''testing'', ''- **Testing** (`components/testing/`): Testkube test definitions'')]"

definition description_line :: "(string \<times> string) list \<Rightarrow> string \<Rightarrow> string" where
  \<comment> \<open>\<open>descriptions[comp] + "\n"\<close> for a key of the dictionary\<close>
  "description_line descriptions key =
     (case map_of descriptions key of None \<Rightarrow> [] | Some d \<Rightarrow> d @ ''\<newline>'')"

definition scaffolding_arch_content :: "(string \<Rightarrow> string) \<Rightarrow> Config \<Rightarrow> string" where
  "scaffolding_arch_content title config =
     (let components_raw = components config;
          component_types = component_types_of components_raw
      in arch_header (project_name config)
         @ concat (map (\<lambda>comp_type. if comp_type \<in> component_types
                                     then description_line STATIC_DESCRIPTIONS comp_type else [])
                       [''contract'', ''config'', ''helm'', ''testing''])
         @ concat (map (\<lambda>server. ''- **'' @ title (display_name server ''Server'')
                          @ ''** (`components/'' @ dir_name server
                          @ ''/`): Node.js/TypeScript backend with CMDO architecture\<newline>'')
                       (get_components_by_type components_raw ''server''))
         @ concat (map (\<lambda>webapp. ''- **'' @ title (display_name webapp ''Webapp'')
                          @ ''** (`components/'' @ dir_name webapp
                          @ ''/`): React/TypeScript frontend with MVVM pattern\<newline>'')
                       (get_components_by_type components_raw ''webapp'')))"

definition scaffolding_workspaces :: "string list \<Rightarrow> string list" where
  \<comment> \<open>the list \<open>workspaces\<close> built under "Build list of workspaces for CI"\<close>
  "scaffolding_workspaces components_raw =
     (if ''contract'' \<in> component_types_of components_raw then [''components/contract''] else [])
     @ map (\<lambda>server. ''components/'' @ dir_name server)
           (get_components_by_type components_raw ''server'')
     @ map (\<lambda>webapp. ''components/'' @ dir_name webapp)
           (get_components_by_type components_raw ''webapp'')"

definition scaffolding_ci :: "string list \<Rightarrow> scaffold_state \<Rightarrow> scaffold_state" where
  \<comment> \<open>the block "CI/CD workflows": \<open>workspaces\<close> is built and not read again\<close>
  "scaffolding_ci components_raw st =
     (if ''cicd'' \<in> component_types_of components_raw
      then (let workspaces = scaffolding_workspaces components_raw
            in write_text ''.github/workflows/ci.yaml'' ci_content st)
      else st)"

definition scaffolding_templates ::
  "(string \<Rightarrow> string) \<Rightarrow> Config \<Rightarrow> template_tree \<Rightarrow> scaffold_state \<Rightarrow> scaffold_state" where
  \<comment> \<open>Step 3 of \<open>scaffold_project\<close> up to the webapp templates\<close>
  "scaffolding_templates title config tmpl st0 =
     (let components_raw = components config;
          component_types = component_types_of components_raw;
          project_templates = path_join (path_join (skills_dir config) ''project-scaffolding'') ''templates'';
          backend_templates = path_join (path_join (skills_dir config) ''backend-scaffolding'') ''templates'';
          frontend_templates = path_join (path_join (skills_dir config) ''frontend-scaffolding'') ''templates'';
          contract_templates = path_join (path_join (skills_dir config) ''contract-scaffolding'') ''templates'';
          project_files_dir = path_join project_templates ''project'';
          specs_files_dir = path_join project_templates ''specs'';
          config_files_dir = path_join project_templates ''config'';
          st = run_if (path_exists tmpl project_files_dir)
                 (fold (copy_if_exists tmpl config project_files_dir) PROJECT_FILES) st0;
          st = run_if (path_exists tmpl specs_files_dir)
                 (fold (copy_if_exists tmpl config specs_files_dir) SPEC_FILES) st;
          st = write_text ''specs/architecture/overview.md'' (scaffolding_arch_content title config) st;
          st = run_if (path_exists tmpl config_files_dir)
                 (fold (copy_if_exists tmpl config config_files_dir)
                       (under ''components/config'' CONFIG_FILES)) st;
          st = run_if (''contract'' \<in> component_types)
                 (\<lambda>st. write_text ''components/contract/.gitignore''
                         ''node_modules/\<newline>generated/\<newline>''
                         (run_if (path_exists tmpl contract_templates)
                            (fold (copy_if_exists tmpl config contract_templates)
                                  (under ''components/contract'' CONTRACT_FILES)) st)) st;
          st = run_if (path_exists tmpl backend_templates)
                 (fold (\<lambda>server. copy_tree tmpl config backend_templates
                                       (''components/'' @ dir_name server))
                       (get_components_by_type components_raw ''server'')) st;
          st = run_if (path_exists tmpl frontend_templates)
                 (fold (\<lambda>webapp. copy_tree tmpl config frontend_templates
                                       (''components/'' @ dir_name webapp))
                       (get_components_by_type components_raw ''webapp'')) st
      in st)"

definition scaffolding_scaffold_project ::
  "(string \<Rightarrow> string) \<Rightarrow> Config \<Rightarrow> template_tree \<Rightarrow> disk \<Rightarrow> scaffold_result \<times> disk" where
  "scaffolding_scaffold_project title config tmpl dk =
     (let st = start dk;
          st = write_text ''.gitignore'' GITIGNORE st;
          st = scaffolding_directories (components config) st;
          st = scaffolding_templates title config tmpl st;
          st = scaffolding_ci (components config) st
      in finish (target_dir config) st)"

text \<open>
  \<open>main\<close> from the loaded configuration on. The JSON object is read as a record of
  optional fields, one per key of \<open>Config\<close> and one for the legacy key; \<open>None\<close> is
  \<open>field not in config\<close>. The loop over \<open>required\<close> returns at the first missing key, in
  the order of the list. \<open>loaded = None\<close> stands for a configuration file that does not
  exist. The result is the exit status, the lines written to standard error and the
  target tree.
\<close>

record raw_config =
  raw_project_name :: "string option"
  raw_project_description :: "string option"
  raw_primary_domain :: "string option"
  raw_target_dir :: "string option"
  raw_components :: "string list option"
  raw_skills_dir :: "string option"
  raw_template_dir :: "string option"

record run =
  exit_code :: int
  stderr :: "string list"
  disk_after :: disk

definition fail :: "string \<Rightarrow> disk \<Rightarrow> run" where
  \<comment> \<open>\<open>print(message, file=sys.stderr); return 1\<close>\<close>
  "fail message dk = \<lparr>exit_code = 1, stderr = [message], disk_after = dk\<rparr>"

definition missing_config_field :: "string \<Rightarrow> string" where
  "missing_config_field field = ''Error: Missing required config field: '' @ field"

definition completed :: "scaffold_result \<times> disk \<Rightarrow> run" where
  \<comment> \<open>\<open>return 0 if result["success"] else 1\<close>\<close>
  "completed r = \<lparr>exit_code = (if success (fst r) then 0 else 1), stderr = [], disk_after = snd r\<rparr>"

definition default_description :: "string \<Rightarrow> string option \<Rightarrow> string" where
  \<comment> \<open>\<open>config.setdefault("project_description", f"A {config['project_name']} project")\<close>\<close>
  "default_description pname d = (case d of None \<Rightarrow> ''A '' @ pname @ '' project'' | Some v \<Rightarrow> v)"

definition default_domain :: "string option \<Rightarrow> string" where
  \<comment> \<open>\<open>config.setdefault("primary_domain", "General")\<close>\<close>
  "default_domain d = (case d of None \<Rightarrow> ''General'' | Some v \<Rightarrow> v)"

definition path_root :: "string \<Rightarrow> string" where
  \<comment> \<open>the root of a \<open>Path\<close>: one slash, or two when the text starts with exactly two\<close>
  "path_root t =
     (if prefix ''//'' t \<and> \<not> prefix ''///'' t then ''//''
      else if prefix ''/'' t then ''/'' else [])"

definition path_parts :: "string \<Rightarrow> string list" where
  \<comment> \<open>the components of a \<open>Path\<close>: empty components and single dots are dropped\<close>
  "path_parts t = filter (\<lambda>part. part \<noteq> [] \<and> part \<noteq> ''.'') (split_on CHR ''/'' t)"

definition legacy_skills_dir :: "string \<Rightarrow> string" where
  \<comment> \<open>\<open>str(Path(template_dir).parent / "skills")\<close>: the last component is replaced\<close>
  "legacy_skills_dir t = path_root t @ join ''/'' (butlast (path_parts t) @ [''skills''])"

definition with_legacy_skills_dir :: "raw_config \<Rightarrow> raw_config" where
  \<comment> \<open>\<open>if "skills_dir" not in config and "template_dir" in config: ...\<close>\<close>
  "with_legacy_skills_dir config =
     (case (raw_skills_dir config, raw_template_dir config) of
        (None, Some t) \<Rightarrow> config\<lparr>raw_skills_dir := Some (legacy_skills_dir t)\<rparr>
      | _ \<Rightarrow> config)"

definition scaffolding_main ::
  "(string \<Rightarrow> string) \<Rightarrow> string \<Rightarrow> raw_config option \<Rightarrow> template_tree \<Rightarrow> disk \<Rightarrow> run" where
  "scaffolding_main title config_path loaded tmpl dk =
     (case loaded of
        None \<Rightarrow> fail (''Error: Config file not found: '' @ config_path) dk
      | Some config0 \<Rightarrow>
          (let config = with_legacy_skills_dir config0 in
           case raw_project_name config of
             None \<Rightarrow> fail (missing_config_field ''project_name'') dk
           | Some pname \<Rightarrow>
          (case raw_target_dir config of
             None \<Rightarrow> fail (missing_config_field ''target_dir'') dk
           | Some tdir \<Rightarrow>
          (case raw_components config of
             None \<Rightarrow> fail (missing_config_field ''components'') dk
           | Some comps \<Rightarrow>
          (case raw_skills_dir config of
             None \<Rightarrow> fail (missing_config_field ''skills_dir'') dk
           | Some sdir \<Rightarrow>
               completed (scaffolding_scaffold_project title
                 \<lparr>project_name = pname,
                  project_description = default_description pname (raw_project_description config),
                  primary_domain = default_domain (raw_primary_domain config),
                  target_dir = tdir, components = comps, skills_dir = sdir\<rparr> tmpl dk))))))"

section \<open>Project scaffolder: scaffold.py\<close>

definition SERVER_DIRS :: "string list" where
  "SERVER_DIRS =
     [''components/server/src/app'',
      ''components/server/src/config'',
      ''components/server/src/controller/http_handlers'',
      ''components/server/src/model/definitions'',
      ''components/server/src/model/use-cases'',
      ''components/server/src/dal'',
      ''components/server/src/telemetry'']"

definition scaffold_directories :: "string set \<Rightarrow> scaffold_state \<Rightarrow> scaffold_state" where
  \<comment> \<open>Step 2 of \<open>scaffold_project\<close>; \<open>comps\<close> is \<open>set(config["components"])\<close>\<close>
  "scaffold_directories comps st0 =
     (let st = fold create_directory SPECS_DIRS st0;
          st = fold create_directory CONFIG_DIRS st;
          st = run_if (''contract'' \<in> comps) (create_directory ''components/contract'') st;
          st = run_if (''server'' \<in> comps) (fold create_directory SERVER_DIRS) st;
          st = run_if (''webapp'' \<in> comps) (fold create_directory (webapp_subdirs ''webapp'')) st;
          st = run_if (''helm'' \<in> comps) (create_directory ''components/helm'') st;
          st = run_if (''testing'' \<in> comps) (fold create_directory TESTING_DIRS) st;
          st = run_if (''cicd'' \<in> comps) (create_directory ''.github/workflows'') st
      in st)"

definition COMPONENT_DESCRIPTIONS :: "(string \<times> string) list" where
  "COMPONENT_DESCRIPTIONS =
     [(''contract'', ''- **Contract** (`components/contract/`): OpenAPI specifications and type generation''),
      (''server'', ''- **Server** (`components/server/`): Node.js/TypeScript backend with 5-layer architecture''),
      (''webapp'', ''- **Webapp** (`components/webapp/`): React/TypeScript frontend with MVVM pattern''),
      (''config'', ''- **Config** (`components/config/`): YAML-based configuration management''),
      (''helm'', ''- **Helm** (`components/helm/`): Kubernetes deployment charts''),
      (''testing'', ''- **Testing** (`components/testing/`): Testkube test definitions'')]"

definition scaffold_arch_content :: "Config_scaffold \<Rightarrow> string" where
  \<comment> \<open>\<open>for comp in sorted(components): if comp in component_descriptions: ...\<close>\<close>
  "scaffold_arch_content config =
     arch_header (project_name config)
     @ concat (map (description_line COMPONENT_DESCRIPTIONS) (sort (remdups (components config))))"

definition scaffold_templates ::
  "Config_scaffold \<Rightarrow> template_tree \<Rightarrow> scaffold_state \<Rightarrow> scaffold_state" where
  \<comment> \<open>Step 3 of \<open>scaffold_project\<close> up to the webapp templates\<close>
  "scaffold_templates config tmpl st0 =
     (let comps = set (components config);
          templates = template_dir config;
          project_templates = path_join templates ''project'';
          specs_templates = path_join templates ''specs'';
          config_templates = path_join templates ''components/config'';
          contract_templates = path_join templates ''components/contract'';
          server_templates = path_join templates ''components/server'';
          webapp_templates = path_join templates ''components/webapp'';
          st = run_if (path_exists tmpl project_templates)
                 (fold (copy_if_exists tmpl config project_templates) PROJECT_FILES) st0;
          st = run_if (path_exists tmpl specs_templates)
                 (fold (copy_if_exists tmpl config specs_templates) SPEC_FILES) st;
          st = write_text ''specs/architecture/overview.md'' (scaffold_arch_content config) st;
          st = run_if (path_exists tmpl config_templates)
                 (fold (copy_if_exists tmpl config config_templates)
                       (under ''components/config'' CONFIG_FILES)) st;
          st = run_if (''contract'' \<in> comps)
                 (\<lambda>st. write_text ''components/contract/.gitignore''
                         ''node_modules/\<newline>generated/\<newline>''
                         (run_if (path_exists tmpl contract_templates)
                            (fold (copy_if_exists tmpl config contract_templates)
                                  (under ''components/contract'' CONTRACT_FILES)) st)) st;
          st = run_if (''server'' \<in> comps \<and> path_exists tmpl server_templates)
                 (copy_tree tmpl config server_templates ''components/server'') st;
          st = run_if (''webapp'' \<in> comps \<and> path_exists tmpl webapp_templates)
                 (copy_tree tmpl config webapp_templates ''components/webapp'') st
      in st)"

definition scaffold_ci :: "string set \<Rightarrow> scaffold_state \<Rightarrow> scaffold_state" where
  "scaffold_ci comps st =
     (if ''cicd'' \<in> comps then write_text ''.github/workflows/ci.yaml'' ci_content st else st)"

definition scaffold_scaffold_project ::
  "Config_scaffold \<Rightarrow> template_tree \<Rightarrow> disk \<Rightarrow> scaffold_result \<times> disk" where
  "scaffold_scaffold_project config tmpl dk =
     (let st = start dk;
          st = write_text ''.gitignore'' GITIGNORE st;
          st = scaffold_directories (set (components config)) st;
          st = scaffold_templates config tmpl st;
          st = scaffold_ci (set (components config)) st
      in finish (target_dir config) st)"

definition scaffold_main ::
  "string \<Rightarrow> raw_config option \<Rightarrow> template_tree \<Rightarrow> disk \<Rightarrow> run" where
  "scaffold_main config_path loaded tmpl dk =
     (case loaded of
        None \<Rightarrow> fail (''Error: Config file not found: '' @ config_path) dk
      | Some config \<Rightarrow>
          (case raw_project_name config of
             None \<Rightarrow> fail (missing_config_field ''project_name'') dk
           | Some pname \<Rightarrow>
          (case raw_target_dir config of
             None \<Rightarrow> fail (missing_config_field ''target_dir'') dk
           | Some tdir \<Rightarrow>
          (case raw_components config of
             None \<Rightarrow> fail (missing_config_field ''components'') dk
           | Some comps \<Rightarrow>
          (case raw_template_dir config of
             None \<Rightarrow> fail (missing_config_field ''template_dir'') dk
           | Some tmpl_dir \<Rightarrow>
               completed (scaffold_scaffold_project
                 \<lparr>project_name = pname,
                  project_description = default_description pname (raw_project_description config),
                  primary_domain = default_domain (raw_primary_domain config),
                  target_dir = tdir, components = comps, template_dir = tmpl_dir\<rparr> tmpl dk))))))"

section \<open>Properties\<close>

subsection \<open>Helper lemmas on the header parser and the validator\<close>

lemma match_header_no_prefix: "\<not> prefix ''---'' content \<Longrightarrow> match_header content = None"
  by (simp add: match_header_def)

lemma match_header_no_delimiter: "\<not> sublist ''---'' content \<Longrightarrow> match_header content = None"
  using match_header_no_prefix prefix_imp_sublist by blast

lemma check_fields_fold:
  "fold (\<lambda>field errs. if field_missing fm field then errs @ [missing_field_error field path] else errs)
        fds errors
     = errors @ map (\<lambda>f. missing_field_error f path) (filter (field_missing fm) fds)"
  by (induction fds arbitrary: errors) auto

lemma check_fields_eq:
  "check_fields path fm errors
     = errors @ map (\<lambda>f. missing_field_error f path) (filter (field_missing fm) REQUIRED_FIELDS)"
  by (simp add: check_fields_def check_fields_fold)

lemma fold_add_line_other:
  "\<forall>l \<in> set ls. CHR '':'' \<in> set l \<longrightarrow> line_key l \<noteq> k \<Longrightarrow> fold add_line ls m k = m k"
  by (induction ls arbitrary: m) (auto simp: add_line_def)

lemma parse_lines_last:
  assumes "split_on CHR ''\<newline>'' block = pre @ line # post"
    and "CHR '':'' \<in> set line"
    and "\<forall>l \<in> set post. CHR '':'' \<in> set l \<longrightarrow> line_key l \<noteq> line_key line"
  shows "parse_lines block (line_key line) = Some (line_value line)"
  using assms by (simp add: parse_lines_def fold_add_line_other add_line_def)

subsection \<open>Validator: error accumulation\<close>

text \<open>
  Claim C1. Once the header block of a file is found, \<open>validate_spec\<close> returns all errors
  that apply, in the order of the checks: one for each required field that is missing or
  empty, then the invalid status, then the placeholder issue; no check ends the function.
  In particular a header that has non-empty \<open>title\<close>, \<open>domain\<close>, \<open>created\<close> and
  \<open>updated\<close>, no \<open>issue\<close> and the status \<open>bogus\<close> gives exactly two errors.
\<close>

theorem validate_spec_accumulates:
  assumes "fs path = Some content"
    and "parse_frontmatter_validate content = Some fm"
  shows "validate_spec fs path =
           map (\<lambda>f. missing_field_error f path) (filter (field_missing fm) REQUIRED_FIELDS)
           @ (case fm ''status'' of
                None \<Rightarrow> []
              | Some s \<Rightarrow> if s \<in> set VALID_STATUSES then [] else [invalid_status_error s path])
           @ (case fm ''issue'' of
                None \<Rightarrow> []
              | Some i \<Rightarrow> if i \<in> set PLACEHOLDER_ISSUES then [placeholder_issue_error path] else [])
         \<and> (fm ''issue'' = None \<and> fm ''status'' = Some ''bogus''
              \<and> \<not> field_missing fm ''title'' \<and> \<not> field_missing fm ''domain''
              \<and> \<not> field_missing fm ''created'' \<and> \<not> field_missing fm ''updated''
            \<longrightarrow> validate_spec fs path
                  = [missing_field_error ''issue'' path, invalid_status_error ''bogus'' path]
                \<and> length (validate_spec fs path) = 2)"
proof -
  have eq: "validate_spec fs path =
           map (\<lambda>f. missing_field_error f path) (filter (field_missing fm) REQUIRED_FIELDS)
           @ (case fm ''status'' of
                None \<Rightarrow> []
              | Some s \<Rightarrow> if s \<in> set VALID_STATUSES then [] else [invalid_status_error s path])
           @ (case fm ''issue'' of
                None \<Rightarrow> []
              | Some i \<Rightarrow> if i \<in> set PLACEHOLDER_ISSUES then [placeholder_issue_error path] else [])"
    using assms
    by (simp add: validate_spec_def check_issue_def check_status_def check_fields_eq
             split: option.splits)
  have two: "validate_spec fs path
                  = [missing_field_error ''issue'' path, invalid_status_error ''bogus'' path]"
    if "fm ''issue'' = None" "fm ''status'' = Some ''bogus''"
       "\<not> field_missing fm ''title''" "\<not> field_missing fm ''domain''"
       "\<not> field_missing fm ''created''" "\<not> field_missing fm ''updated''"
  proof -
    have "field_missing fm ''issue''" "\<not> field_missing fm ''status''"
      using that by (simp_all add: field_missing_def)
    then show ?thesis
      using that by (simp add: eq REQUIRED_FIELDS_def VALID_STATUSES_def)
  qed
  show ?thesis using eq two by simp
qed

theorem validate_spec_accumulates_witness:
  "validate_spec [''spec.md'' \<mapsto> ''---\<newline>title: T\<newline>status: bogus\<newline>domain: D\<newline>created: c\<newline>updated: u\<newline>---\<newline>body''] ''spec.md''
     = [missing_field_error ''issue'' ''spec.md'', invalid_status_error ''bogus'' ''spec.md'']
   \<and> length (validate_spec [''spec.md'' \<mapsto> ''---\<newline>title: T\<newline>status: bogus\<newline>domain: D\<newline>created: c\<newline>updated: u\<newline>---\<newline>body''] ''spec.md'') = 2"
proof -
  let ?doc = "''---\<newline>title: T\<newline>status: bogus\<newline>domain: D\<newline>created: c\<newline>updated: u\<newline>---\<newline>body''"
  let ?fm = "parse_lines ''title: T\<newline>status: bogus\<newline>domain: D\<newline>created: c\<newline>updated: u''"
  have a: "[''spec.md'' \<mapsto> ?doc] ''spec.md'' = Some ?doc" by simp
  have b: "parse_frontmatter_validate ?doc = Some ?fm"
    by (simp add: parse_frontmatter_validate_def match_header_def is_space_def)
  have c: "?fm ''issue'' = None \<and> ?fm ''status'' = Some ''bogus''
              \<and> \<not> field_missing ?fm ''title'' \<and> \<not> field_missing ?fm ''domain''
              \<and> \<not> field_missing ?fm ''created'' \<and> \<not> field_missing ?fm ''updated''"
    by (simp add: parse_lines_def add_line_def line_key_def line_value_def strip_def
                  is_space_def field_missing_def)
  from validate_spec_accumulates [of "[''spec.md'' \<mapsto> ?doc]" "''spec.md''" ?doc ?fm] a b c
  show ?thesis by blast
qed

text \<open>
  Claim C10. A path that does not exist gives exactly the file-not-found error, and a file
  whose content has no delimiter (more generally: on which the header expression does not
  match) gives exactly the missing-frontmatter error; no field, status or issue error is
  added in either case.
\<close>

theorem validate_spec_single_error:
  "(fs path = None \<longrightarrow> validate_spec fs path = [''File not found: '' @ path])
   \<and> (fs path = Some content \<and> \<not> sublist ''---'' content
        \<longrightarrow> validate_spec fs path = [''Missing frontmatter in '' @ path])
   \<and> (fs path = Some content \<and> match_header content = None
        \<longrightarrow> validate_spec fs path = [''Missing frontmatter in '' @ path])"
  by (auto simp: validate_spec_def parse_frontmatter_validate_def match_header_no_delimiter)

theorem validate_spec_single_error_witness:
  "validate_spec [''a.md'' \<mapsto> ''# Title\<newline>status: bogus''] ''b.md'' = [''File not found: b.md'']
   \<and> validate_spec [''a.md'' \<mapsto> ''# Title\<newline>status: bogus''] ''a.md'' = [''Missing frontmatter in a.md'']"
proof -
  let ?fs = "[''a.md'' \<mapsto> ''# Title\<newline>status: bogus'']"
  have a: "?fs ''b.md'' = None" by simp
  have b: "?fs ''a.md'' = Some ''# Title\<newline>status: bogus'' \<and> \<not> sublist ''---'' ''# Title\<newline>status: bogus''"
    by (simp add: sublist_Cons_right)
  from validate_spec_single_error [of ?fs "''b.md''" "[]"] a
       validate_spec_single_error [of ?fs "''a.md''" "''# Title\<newline>status: bogus''"] b
  show ?thesis by simp
qed

subsection \<open>Header parser\<close>

text \<open>
  Claim C6, as stated, fails for the parser of validate-spec.py: on a document without the
  delimiter it returns \<open>None\<close>, which the validator tells apart from a mapping.
\<close>

theorem no_delimiter_validate_counterexample:
  "\<not> sublist ''---'' ''# Title'' \<and> parse_frontmatter_validate ''# Title'' = None"
  by (simp add: parse_frontmatter_validate_def match_header_def sublist_Cons_right)

text \<open>
  Claim C6, amended. For a document that contains no delimiter, the parsers of
  generate-index.py and generate-snapshot.py return the empty mapping, the same result as
  for a document with an empty header block; the parser of validate-spec.py returns
  \<open>None\<close>, which it does not return for an empty header block.
\<close>

theorem no_delimiter_empty_or_none:
  "\<not> sublist ''---'' content \<Longrightarrow>
     parse_frontmatter_index content = Map.empty
     \<and> parse_frontmatter_snapshot content = Map.empty
     \<and> parse_frontmatter_index content = parse_frontmatter_index ''---\<newline>\<newline>---''
     \<and> parse_frontmatter_snapshot content = parse_frontmatter_snapshot ''---\<newline>\<newline>---''
     \<and> parse_frontmatter_validate content = None
     \<and> parse_frontmatter_validate ''---\<newline>\<newline>---'' \<noteq> None"
  by (simp add: parse_frontmatter_index_def parse_frontmatter_snapshot_def
                parse_frontmatter_validate_def match_header_no_delimiter)
     (simp add: match_header_def is_space_def parse_lines_def add_line_def)

theorem no_delimiter_empty_or_none_witness:
  "parse_frontmatter_index ''# Title'' = Map.empty
   \<and> parse_frontmatter_snapshot ''# Title'' = Map.empty
   \<and> parse_frontmatter_validate ''# Title'' = None"
proof -
  have "\<not> sublist ''---'' ''# Title''" by (simp add: sublist_Cons_right)
  from no_delimiter_empty_or_none [OF this] show ?thesis by simp
qed

text \<open>
  Claim C7. When the header block has a line with a colon and no later line of the block
  has the same key, the parsed mapping binds that key to the value of that line: the last
  occurrence of a key decides its value, whatever earlier lines say.
\<close>

theorem last_key_wins:
  assumes "match_header content = Some block"
    and "split_on CHR ''\<newline>'' block = pre @ line # post"
    and "CHR '':'' \<in> set line"
    and "\<forall>l \<in> set post. CHR '':'' \<in> set l \<longrightarrow> line_key l \<noteq> line_key line"
  shows "parse_frontmatter_index content (line_key line) = Some (line_value line)"
  using assms by (simp add: parse_frontmatter_index_def parse_lines_last)

theorem last_key_wins_witness:
  "parse_frontmatter_index ''---\<newline>a: 1\<newline>b: x\<newline>a: 2\<newline>c: y\<newline>---\<newline>text'' ''a'' = Some ''2''"
proof -
  let ?doc = "''---\<newline>a: 1\<newline>b: x\<newline>a: 2\<newline>c: y\<newline>---\<newline>text''"
  have a: "match_header ?doc = Some ''a: 1\<newline>b: x\<newline>a: 2\<newline>c: y''"
    by (simp add: match_header_def is_space_def)
  have b: "split_on CHR ''\<newline>'' ''a: 1\<newline>b: x\<newline>a: 2\<newline>c: y'' = [''a: 1'', ''b: x''] @ ''a: 2'' # [''c: y'']"
    by simp
  have c: "CHR '':'' \<in> set ''a: 2''" by simp
  have k: "line_key ''a: 2'' = ''a''" "line_value ''a: 2'' = ''2''" "line_key ''c: y'' = ''c''"
    by (simp_all add: line_key_def line_value_def strip_def is_space_def)
  have d: "\<forall>l \<in> set [''c: y'']. CHR '':'' \<in> set l \<longrightarrow> line_key l \<noteq> line_key ''a: 2''"
    by (simp add: k)
  from last_key_wins [OF a b c d] show ?thesis by (simp add: k)
qed

subsection \<open>Index and snapshot builders\<close>

lemma categorize_fold:
  "fold (\<lambda>spec_path by_status.
             by_status(index_status spec_path :=
                         by_status (index_status spec_path) @ [index_entry_of spec_path]))
        specs acc st
     = acc st @ map index_entry_of (filter (\<lambda>p. index_status p = st) specs)"
  by (induction specs arbitrary: acc) auto

lemma categorize_eq:
  "categorize specs st = map index_entry_of (filter (\<lambda>p. index_status p = st) specs)"
  by (simp add: categorize_def categorize_fold)

lemma snapshot_specs_fold:
  "fold (\<lambda>spec_path specs.
             if file_name spec_path \<in> set RESERVED_NAMES then specs
             else if parse_frontmatter_snapshot (file_text spec_path) ''status'' = Some ''active''
                  then specs @ [snapshot_entry_of spec_path]
                  else specs)
        found acc
     = acc @ map snapshot_entry_of
               (filter (\<lambda>p. file_name p \<notin> set RESERVED_NAMES
                            \<and> parse_frontmatter_snapshot (file_text p) ''status'' = Some ''active'')
                       found)"
  by (induction found arbitrary: acc) auto

text \<open>
  Claim C5. When no spec file is found (the directory holds no markdown file other than the
  three reserved names), the text returned by \<open>generate_index\<close> is fixed up to the date: it
  reports a total of 0 and renders each of the three buckets by its empty-state
  placeholder. Only the placeholder of the active bucket is a row of a table,
  \<open>| *No active changes yet* | | | | | |\<close> under the table header; the deprecated and the
  archived bucket are rendered without a table, each by the plain line \<open>*None*\<close>. These
  are the only three placeholder lines of the output, in this order.
\<close>

theorem generate_index_no_specs:
  assumes "index_specs found = []"
  shows "generate_index today found =
           ''# Spec Index\<newline>\<newline>Last updated: '' @ today
             @ ''\<newline>\<newline>Total: 0 specs (Active: 0, Deprecated: 0, Archived: 0)\<newline>\<newline>''
             @ ''## Active Changes\<newline>\<newline>''
             @ ''| Change | Type | Spec | Domain | Issue | Since |\<newline>''
             @ ''|--------|------|------|--------|-------|-------|\<newline>''
             @ ''| *No active changes yet* | | | | | |\<newline>\<newline>''
             @ ''## Deprecated\<newline>\<newline>*None*\<newline>\<newline>''
             @ ''## Archived\<newline>\<newline>*None*\<newline>''
         \<and> generate_index today found = join ''\<newline>'' (index_lines today found) @ ''\<newline>''
         \<and> index_lines today found =
           [''# Spec Index'', [], ''Last updated: '' @ today, [],
            ''Total: 0 specs (Active: 0, Deprecated: 0, Archived: 0)'', [],
            ''## Active Changes'', [],
            ''| Change | Type | Spec | Domain | Issue | Since |'',
            ''|--------|------|------|--------|-------|-------|'',
            ''| *No active changes yet* | | | | | |'', [],
            ''## Deprecated'', [], ''*None*'', [],
            ''## Archived'', [], ''*None*'']
         \<and> filter (\<lambda>l. l = ''| *No active changes yet* | | | | | |'' \<or> l = ''*None*'')
                  (index_lines today found)
             = [''| *No active changes yet* | | | | | |'', ''*None*'', ''*None*'']
         \<and> filter (prefix ''|'')
                  (filter (\<lambda>l. l = ''| *No active changes yet* | | | | | |'' \<or> l = ''*None*'')
                          (index_lines today found))
             = [''| *No active changes yet* | | | | | |'']"
proof -
  have z: "str_nat 0 = ''0''" by code_simp
  have l: "index_lines today found =
           [''# Spec Index'', [], ''Last updated: '' @ today, [],
            ''Total: 0 specs (Active: 0, Deprecated: 0, Archived: 0)'', [],
            ''## Active Changes'', [],
            ''| Change | Type | Spec | Domain | Issue | Since |'',
            ''|--------|------|------|--------|-------|-------|'',
            ''| *No active changes yet* | | | | | |'', [],
            ''## Deprecated'', [], ''*None*'', [],
            ''## Archived'', [], ''*None*'']"
    using assms by (simp add: index_lines_def categorize_eq z)
  have g: "generate_index today found =
           ''# Spec Index\<newline>\<newline>Last updated: '' @ today
             @ ''\<newline>\<newline>Total: 0 specs (Active: 0, Deprecated: 0, Archived: 0)\<newline>\<newline>''
             @ ''## Active Changes\<newline>\<newline>''
             @ ''| Change | Type | Spec | Domain | Issue | Since |\<newline>''
             @ ''|--------|------|------|--------|-------|-------|\<newline>''
             @ ''| *No active changes yet* | | | | | |\<newline>\<newline>''
             @ ''## Deprecated\<newline>\<newline>*None*\<newline>\<newline>''
             @ ''## Archived\<newline>\<newline>*None*\<newline>''"
    by (simp add: generate_index_def l)
  have j: "generate_index today found = join ''\<newline>'' (index_lines today found) @ ''\<newline>''"
    by (simp add: generate_index_def)
  have f: "filter (\<lambda>l. l = ''| *No active changes yet* | | | | | |'' \<or> l = ''*None*'')
                  (index_lines today found)
             = [''| *No active changes yet* | | | | | |'', ''*None*'', ''*None*'']"
    unfolding l by simp
  have r: "filter (prefix ''|'')
                  [''| *No active changes yet* | | | | | |'', ''*None*'', ''*None*'']
             = [''| *No active changes yet* | | | | | |'']"
    by simp
  show ?thesis using g j l f r by (simp only: simp_thms)
qed

theorem generate_index_no_specs_witness:
  "generate_index ''2024-05-01''
       [\<lparr>file_name = ''INDEX.md'', file_stem = ''INDEX'', file_rel = ''INDEX.md'',
         file_text = ''# Spec Index''\<rparr>]
     = ''# Spec Index\<newline>\<newline>Last updated: '' @ ''2024-05-01''
             @ ''\<newline>\<newline>Total: 0 specs (Active: 0, Deprecated: 0, Archived: 0)\<newline>\<newline>''
             @ ''## Active Changes\<newline>\<newline>''
             @ ''| Change | Type | Spec | Domain | Issue | Since |\<newline>''
             @ ''|--------|------|------|--------|-------|-------|\<newline>''
             @ ''| *No active changes yet* | | | | | |\<newline>\<newline>''
             @ ''## Deprecated\<newline>\<newline>*None*\<newline>\<newline>''
             @ ''## Archived\<newline>\<newline>*None*\<newline>''"
proof -
  have "index_specs [\<lparr>file_name = ''INDEX.md'', file_stem = ''INDEX'', file_rel = ''INDEX.md'',
         file_text = ''# Spec Index''\<rparr>] = []"
    by (simp add: index_specs_def RESERVED_NAMES_def)
  from generate_index_no_specs [OF this, of "''2024-05-01''"] show ?thesis by blast
qed

text \<open>
  Claim C4. The snapshot builder keeps exactly the files, outside the reserved names,
  whose header gives \<open>status\<close> the value \<open>active\<close>: a file with the status \<open>Active\<close>
  or with no status key is left out. The index builder files a spec without a status key
  under \<open>active\<close>.
\<close>

theorem snapshot_strict_index_default:
  "snapshot_specs found
     = map snapshot_entry_of
         (filter (\<lambda>p. file_name p \<notin> set RESERVED_NAMES
                      \<and> parse_frontmatter_snapshot (file_text p) ''status'' = Some ''active'')
                 found)
   \<and> (parse_frontmatter_snapshot (file_text p) ''status'' = Some ''Active''
        \<or> parse_frontmatter_snapshot (file_text p) ''status'' = None
      \<longrightarrow> snapshot_specs [p] = [])
   \<and> (p \<in> set found \<and> file_name p \<notin> set RESERVED_NAMES
        \<and> parse_frontmatter_index (file_text p) ''status'' = None
      \<longrightarrow> index_status p = ''active''
          \<and> index_entry_of p \<in> set (categorize (index_specs found) ''active''))"
proof -
  have a: "snapshot_specs fs
     = map snapshot_entry_of
         (filter (\<lambda>p. file_name p \<notin> set RESERVED_NAMES
                      \<and> parse_frontmatter_snapshot (file_text p) ''status'' = Some ''active'')
                 fs)" for fs
    by (simp add: snapshot_specs_def snapshot_specs_fold)
  have b: "snapshot_specs [p] = []"
    if "parse_frontmatter_snapshot (file_text p) ''status'' = Some ''Active''
        \<or> parse_frontmatter_snapshot (file_text p) ''status'' = None"
    using that by (auto simp: a)
  have c: "index_status p = ''active''
          \<and> index_entry_of p \<in> set (categorize (index_specs found) ''active'')"
    if "p \<in> set found" "file_name p \<notin> set RESERVED_NAMES"
       "parse_frontmatter_index (file_text p) ''status'' = None"
  proof -
    have "index_status p = ''active''"
      using that(3) by (simp add: index_status_def get_default_def)
    then show ?thesis
      using that by (auto simp: categorize_eq index_specs_def)
  qed
  show ?thesis using a b c by blast
qed

theorem snapshot_strict_index_default_witness:
  "snapshot_specs [\<lparr>file_name = ''a.md'', file_stem = ''a'', file_rel = ''a.md'',
                     file_text = ''---\<newline>title: A\<newline>---\<newline>text''\<rparr>] = []
   \<and> index_entry_of \<lparr>file_name = ''a.md'', file_stem = ''a'', file_rel = ''a.md'',
                     file_text = ''---\<newline>title: A\<newline>---\<newline>text''\<rparr>
       \<in> set (categorize (index_specs [\<lparr>file_name = ''a.md'', file_stem = ''a'', file_rel = ''a.md'',
                     file_text = ''---\<newline>title: A\<newline>---\<newline>text''\<rparr>]) ''active'')"
proof -
  let ?p = "\<lparr>file_name = ''a.md'', file_stem = ''a'', file_rel = ''a.md'',
              file_text = ''---\<newline>title: A\<newline>---\<newline>text''\<rparr>"
  have m: "match_header ''---\<newline>title: A\<newline>---\<newline>text'' = Some ''title: A''"
    by (simp add: match_header_def is_space_def)
  have k: "line_key ''title: A'' = ''title''"
    by (simp add: line_key_def strip_def is_space_def)
  have s: "parse_frontmatter_snapshot (file_text ?p) ''status'' = None"
    by (simp add: parse_frontmatter_snapshot_def m parse_lines_def add_line_def k)
  have i: "parse_frontmatter_index (file_text ?p) ''status'' = None"
    by (simp add: parse_frontmatter_index_def m parse_lines_def add_line_def k)
  have r: "?p \<in> set [?p] \<and> file_name ?p \<notin> set RESERVED_NAMES"
    by (simp add: RESERVED_NAMES_def)
  from snapshot_strict_index_default [of "[?p]" ?p] s i r show ?thesis by blast
qed

subsection \<open>Scaffolder: the workflow document\<close>

lemma ci_written:
  "''cicd'' \<in> component_types_of comps \<Longrightarrow>
     files (on_disk (scaffolding_ci comps st)) ''.github/workflows/ci.yaml'' = Some ci_content"
  by (simp add: scaffolding_ci_def write_text_def)

lemma ci_written_scaffold:
  "''cicd'' \<in> comps \<Longrightarrow>
     files (on_disk (scaffold_ci comps st)) ''.github/workflows/ci.yaml'' = Some ci_content"
  by (simp add: scaffold_ci_def write_text_def)

lemma ci_content_no_components: "\<not> sublist ''components'' ci_content"
  by (simp add: ci_content_def sublist_Cons_right)

text \<open>
  Claim C3 at the configuration with the components \<open>server:api\<close> and \<open>cicd\<close>: the
  workflow file written by scaffolding.py is the fixed text \<open>ci_content\<close>, whatever the
  templates and the target hold; the list \<open>workspaces\<close> that the code builds holds
  \<open>components/server-api\<close>, and that directory is named nowhere in the file. The same
  holds for scaffold.py with the components \<open>server\<close> and \<open>cicd\<close>.
\<close>

theorem ci_workflow_names_no_component:
  "files (snd (scaffolding_scaffold_project title
                 \<lparr>project_name = pn, project_description = pd, primary_domain = dm,
                  target_dir = td, components = [''server:api'', ''cicd''], skills_dir = sd\<rparr>
                 tmpl dk)) ''.github/workflows/ci.yaml'' = Some ci_content
   \<and> scaffolding_workspaces [''server:api'', ''cicd''] = [''components/server-api'']
   \<and> \<not> sublist ''components/server-api'' ci_content
   \<and> files (snd (scaffold_scaffold_project
                 \<lparr>project_name = pn, project_description = pd, primary_domain = dm,
                  target_dir = td, components = [''server'', ''cicd''], template_dir = sd\<rparr>
                 tmpl dk)) ''.github/workflows/ci.yaml'' = Some ci_content
   \<and> \<not> sublist ''components/server'' ci_content"
proof -
  have t: "''cicd'' \<in> component_types_of [''server:api'', ''cicd'']"
    by (simp add: component_types_of_def parse_component_def Let_def)
  have a: "files (snd (scaffolding_scaffold_project title
                 \<lparr>project_name = pn, project_description = pd, primary_domain = dm,
                  target_dir = td, components = [''server:api'', ''cicd''], skills_dir = sd\<rparr>
                 tmpl dk)) ''.github/workflows/ci.yaml'' = Some ci_content"
    by (simp add: scaffolding_scaffold_project_def Let_def finish_def ci_written [OF t])
  have b: "scaffolding_workspaces [''server:api'', ''cicd''] = [''components/server-api'']"
    by (simp add: scaffolding_workspaces_def component_types_of_def get_components_by_type_def
                  parse_component_def Let_def)
  have c: "files (snd (scaffold_scaffold_project
                 \<lparr>project_name = pn, project_description = pd, primary_domain = dm,
                  target_dir = td, components = [''server'', ''cicd''], template_dir = sd\<rparr>
                 tmpl dk)) ''.github/workflows/ci.yaml'' = Some ci_content"
    by (simp add: scaffold_scaffold_project_def Let_def finish_def ci_written_scaffold)
  have d: "\<not> sublist (''components'' @ s) ci_content" for s
    using ci_content_no_components unfolding sublist_def by (metis append.assoc)
  have e: "\<not> sublist ''components/server-api'' ci_content" "\<not> sublist ''components/server'' ci_content"
    using d [of "''/server-api''"] d [of "''/server''"] by simp_all
  show ?thesis using a b c e by simp
qed

subsection \<open>Scaffolder: directories\<close>

lemma dirs_mkdir [simp]: "dirs (mkdir ch dk) = dirs dk \<union> set ch"
  by (simp add: mkdir_def)

lemma dirs_copy_template_file:
  "dirs (copy_template_file tmpl src dest config dk) = dirs dk \<union> set (butlast (dir_chain dest))"
  by (simp add: copy_template_file_def Let_def)

lemma dirs_write_text [simp]: "dirs (on_disk (write_text p c st)) = dirs (on_disk st)"
  by (simp add: write_text_def)

lemma dirs_create_directory [simp]:
  "dirs (on_disk (create_directory d st)) = dirs (on_disk st) \<union> set (dir_chain d)"
  by (simp add: create_directory_def)

lemma dirs_fold_create_directory:
  "dirs (on_disk (fold create_directory ds st)) = dirs (on_disk st) \<union> (\<Union>d \<in> set ds. set (dir_chain d))"
  by (induction ds arbitrary: st) auto

lemma files_fold_create_directory:
  "files (on_disk (fold create_directory ds st)) = files (on_disk st)"
  by (induction ds arbitrary: st) (simp_all add: create_directory_def mkdir_def)

lemma target_made_fold_create_directory:
  "target_made (on_disk st) \<Longrightarrow> target_made (on_disk (fold create_directory ds st))"
  by (induction ds arbitrary: st) (simp_all add: create_directory_def mkdir_def)

lemma dirs_copy_if_exists:
  "dirs (on_disk (copy_if_exists tmpl config dir pair st))
     = dirs (on_disk st)
       \<union> (if path_exists tmpl (path_join dir (fst pair))
            then set (butlast (dir_chain (snd pair))) else {})"
  by (simp add: copy_if_exists_def Let_def dirs_copy_template_file)

lemma dirs_fold_copy_if_exists_lower:
  "dirs (on_disk st) \<subseteq> dirs (on_disk (fold (copy_if_exists tmpl config dir) ps st))"
proof (induction ps arbitrary: st)
  case Nil
  show ?case by simp
next
  case (Cons p ps)
  have "dirs (on_disk st) \<subseteq> dirs (on_disk (copy_if_exists tmpl config dir p st))"
    by (simp add: dirs_copy_if_exists)
  with Cons [of "copy_if_exists tmpl config dir p st"] show ?case by auto
qed

lemma dirs_fold_copy_if_exists_upper:
  "dirs (on_disk (fold (copy_if_exists tmpl config dir) ps st))
     \<subseteq> dirs (on_disk st) \<union> (\<Union>p \<in> set ps. set (butlast (dir_chain (snd p))))"
proof (induction ps arbitrary: st)
  case Nil
  show ?case by simp
next
  case (Cons p ps)
  have "dirs (on_disk (copy_if_exists tmpl config dir p st))
          \<subseteq> dirs (on_disk st) \<union> set (butlast (dir_chain (snd p)))"
    by (simp add: dirs_copy_if_exists)
  with Cons [of "copy_if_exists tmpl config dir p st"] show ?case by auto
qed

lemma dirs_copy_tree_lower:
  "dirs (on_disk st) \<subseteq> dirs (on_disk (copy_tree tmpl config root dest_root st))"
proof -
  have "dirs (on_disk st) \<subseteq> dirs (on_disk (fold (\<lambda>rel_path st.
             if is_file tmpl (path_join root rel_path)
             then st\<lparr>on_disk := copy_template_file tmpl (path_join root rel_path)
                                   (path_join dest_root rel_path) config (on_disk st),
                     created_files := created_files st @ [path_join dest_root rel_path]\<rparr>
             else st) rels st))" for rels
  proof (induction rels arbitrary: st)
    case Nil
    show ?case by simp
  next
    case (Cons r rels)
    show ?case
      using Cons [of "if is_file tmpl (path_join root r)
             then st\<lparr>on_disk := copy_template_file tmpl (path_join root r)
                                   (path_join dest_root r) config (on_disk st),
                     created_files := created_files st @ [path_join dest_root r]\<rparr>
             else st"]
      by (auto simp: dirs_copy_template_file)
  qed
  then show ?thesis by (simp add: copy_tree_def)
qed

lemma dirs_fold_copy_tree_lower:
  "dirs (on_disk st)
     \<subseteq> dirs (on_disk (fold (\<lambda>pc. copy_tree tmpl config root (dest pc)) pcs st))"
proof (induction pcs arbitrary: st)
  case Nil
  show ?case by simp
next
  case (Cons pc pcs)
  from Cons [of "copy_tree tmpl config root (dest pc) st"]
       dirs_copy_tree_lower [of st tmpl config root "dest pc"]
  show ?case by auto
qed

lemma in_dirs_fold_copy_if_exists:
  "d \<in> dirs (on_disk st) \<Longrightarrow> d \<in> dirs (on_disk (fold (copy_if_exists tmpl config dir) ps st))"
  using dirs_fold_copy_if_exists_lower by blast

lemma in_dirs_fold_copy_tree:
  "d \<in> dirs (on_disk st) \<Longrightarrow>
     d \<in> dirs (on_disk (fold (\<lambda>pc. copy_tree tmpl config root (dest pc)) pcs st))"
  using dirs_fold_copy_tree_lower by blast

lemma in_dirs_copy_tree:
  "d \<in> dirs (on_disk st) \<Longrightarrow> d \<in> dirs (on_disk (copy_tree tmpl config root dest_root st))"
  using dirs_copy_tree_lower by blast

lemma in_dirs_run_if:
  "d \<in> dirs (on_disk st) \<Longrightarrow> (\<And>s. d \<in> dirs (on_disk s) \<Longrightarrow> d \<in> dirs (on_disk (block s)))
     \<Longrightarrow> d \<in> dirs (on_disk (run_if c block st))"
  by (simp add: run_if_def)

lemma in_dirs_write_text:
  "d \<in> dirs (on_disk st) \<Longrightarrow> d \<in> dirs (on_disk (write_text p c st))"
  by simp

lemma in_dirs_scaffolding_templates:
  "d \<in> dirs (on_disk st) \<Longrightarrow> d \<in> dirs (on_disk (scaffolding_templates title config tmpl st))"
  unfolding scaffolding_templates_def Let_def
  by (intro in_dirs_run_if in_dirs_write_text in_dirs_fold_copy_if_exists in_dirs_fold_copy_tree)

lemma in_dirs_scaffolding_ci:
  "d \<in> dirs (on_disk st) \<Longrightarrow> d \<in> dirs (on_disk (scaffolding_ci comps st))"
  by (simp add: scaffolding_ci_def)

lemma dir_chains:
  "dir_chain ''specs'' = [''specs'']"
  "dir_chain ''specs/domain'' = [''specs'', ''specs/domain'']"
  "dir_chain ''specs/domain/definitions'' = [''specs'', ''specs/domain'', ''specs/domain/definitions'']"
  "dir_chain ''specs/domain/use-cases'' = [''specs'', ''specs/domain'', ''specs/domain/use-cases'']"
  "dir_chain ''specs/architecture'' = [''specs'', ''specs/architecture'']"
  "dir_chain ''specs/changes'' = [''specs'', ''specs/changes'']"
  "dir_chain ''specs/external'' = [''specs'', ''specs/external'']"
  "dir_chain ''components/config'' = [''components'', ''components/config'']"
  "dir_chain ''components/config/schemas''
     = [''components'', ''components/config'', ''components/config/schemas'']"
  by (simp_all add: dir_chain_def)

lemma file_chains:
  "butlast (dir_chain ''README.md'') = []"
  "butlast (dir_chain ''CLAUDE.md'') = []"
  "butlast (dir_chain ''package.json'') = []"
  "butlast (dir_chain ''specs/INDEX.md'') = [''specs'']"
  "butlast (dir_chain ''specs/SNAPSHOT.md'') = [''specs'']"
  "butlast (dir_chain ''specs/domain/glossary.md'') = [''specs'', ''specs/domain'']"
  "butlast (dir_chain (path_join ''components/config'' ''config.yaml''))
     = [''components'', ''components/config'']"
  "butlast (dir_chain (path_join ''components/config'' ''config-local.yaml''))
     = [''components'', ''components/config'']"
  "butlast (dir_chain (path_join ''components/config'' ''config-testing.yaml''))
     = [''components'', ''components/config'']"
  "butlast (dir_chain (path_join ''components/config'' ''config-production.yaml''))
     = [''components'', ''components/config'']"
  "butlast (dir_chain (path_join ''components/config'' ''schemas/schema.json''))
     = [''components'', ''components/config'', ''components/config/schemas'']"
  "butlast (dir_chain (path_join ''components/config'' ''schemas/ops-schema.json''))
     = [''components'', ''components/config'', ''components/config/schemas'']"
  "butlast (dir_chain (path_join ''components/config'' ''schemas/app-schema.json''))
     = [''components'', ''components/config'', ''components/config/schemas'']"
  by (simp_all add: dir_chain_def path_join_def)

lemma server_chains:
  "set (dir_chain ''components/server-api/src/operator'')
     \<union> set (dir_chain ''components/server-api/src/config'')
     \<union> set (dir_chain ''components/server-api/src/controller/http_handlers'')
     \<union> set (dir_chain ''components/server-api/src/model/definitions'')
     \<union> set (dir_chain ''components/server-api/src/model/use-cases'')
     \<union> set (dir_chain ''components/server-api/src/dal'')
     \<union> set (dir_chain ''components/server-billing/src/operator'')
     \<union> set (dir_chain ''components/server-billing/src/config'')
     \<union> set (dir_chain ''components/server-billing/src/controller/http_handlers'')
     \<union> set (dir_chain ''components/server-billing/src/model/definitions'')
     \<union> set (dir_chain ''components/server-billing/src/model/use-cases'')
     \<union> set (dir_chain ''components/server-billing/src/dal'')
   \<supseteq> {''components/server-api'',
       ''components/server-api/src/operator'',
       ''components/server-api/src/config'',
       ''components/server-api/src/controller/http_handlers'',
       ''components/server-api/src/model/definitions'',
       ''components/server-api/src/model/use-cases'',
       ''components/server-api/src/dal'',
       ''components/server-billing'',
       ''components/server-billing/src/operator'',
       ''components/server-billing/src/config'',
       ''components/server-billing/src/controller/http_handlers'',
       ''components/server-billing/src/model/definitions'',
       ''components/server-billing/src/model/use-cases'',
       ''components/server-billing/src/dal''}"
  by (simp add: dir_chain_def)

lemma two_servers:
  "get_components_by_type [''server:api'', ''server:billing''] ''server''
     = [\<lparr>component_type = ''server'', name = Some ''api'', dir_name = ''server-api''\<rparr>,
        \<lparr>component_type = ''server'', name = Some ''billing'', dir_name = ''server-billing''\<rparr>]"
  "get_components_by_type [''server:api'', ''server:billing''] ''webapp'' = []"
  "component_types_of [''server:api'', ''server:billing''] = {''server''}"
  by (simp_all add: get_components_by_type_def component_types_of_def parse_component_def Let_def)

lemma scaffolding_directories_two_servers:
  "{''components/server-api'',
       ''components/server-api/src/operator'',
       ''components/server-api/src/config'',
       ''components/server-api/src/controller/http_handlers'',
       ''components/server-api/src/model/definitions'',
       ''components/server-api/src/model/use-cases'',
       ''components/server-api/src/dal'',
       ''components/server-billing'',
       ''components/server-billing/src/operator'',
       ''components/server-billing/src/config'',
       ''components/server-billing/src/controller/http_handlers'',
       ''components/server-billing/src/model/definitions'',
       ''components/server-billing/src/model/use-cases'',
       ''components/server-billing/src/dal''}
   \<subseteq> dirs (on_disk (scaffolding_directories [''server:api'', ''server:billing''] st))"
proof -
  have "dirs (on_disk (scaffolding_directories [''server:api'', ''server:billing''] st))
        = dirs (on_disk st)
          \<union> (\<Union>d \<in> set SPECS_DIRS. set (dir_chain d))
          \<union> (\<Union>d \<in> set CONFIG_DIRS. set (dir_chain d))
          \<union> (\<Union>d \<in> set (scaffolding_server_subdirs ''server-api''). set (dir_chain d))
          \<union> (\<Union>d \<in> set (scaffolding_server_subdirs ''server-billing''). set (dir_chain d))"
    by (simp add: scaffolding_directories_def Let_def run_if_def two_servers
                  dirs_fold_create_directory Un_assoc)
  also have "\<dots> \<supseteq> set (dir_chain ''components/server-api/src/operator'')
     \<union> set (dir_chain ''components/server-api/src/config'')
     \<union> set (dir_chain ''components/server-api/src/controller/http_handlers'')
     \<union> set (dir_chain ''components/server-api/src/model/definitions'')
     \<union> set (dir_chain ''components/server-api/src/model/use-cases'')
     \<union> set (dir_chain ''components/server-api/src/dal'')
     \<union> set (dir_chain ''components/server-billing/src/operator'')
     \<union> set (dir_chain ''components/server-billing/src/config'')
     \<union> set (dir_chain ''components/server-billing/src/controller/http_handlers'')
     \<union> set (dir_chain ''components/server-billing/src/model/definitions'')
     \<union> set (dir_chain ''components/server-billing/src/model/use-cases'')
     \<union> set (dir_chain ''components/server-billing/src/dal'')"
    by (auto simp: scaffolding_server_subdirs_def)
  finally show ?thesis using server_chains by blast
qed

lemma scaffold_directories_no_server:
  "dirs (on_disk (scaffold_directories {''server:api'', ''server:billing''} st))
     = dirs (on_disk st)
       \<union> {''specs'', ''specs/domain'', ''specs/domain/definitions'', ''specs/domain/use-cases'',
          ''specs/architecture'', ''specs/changes'', ''specs/external'',
          ''components'', ''components/config'', ''components/config/schemas''}"
  by (auto simp: scaffold_directories_def Let_def run_if_def dirs_fold_create_directory
                 SPECS_DIRS_def CONFIG_DIRS_def dir_chains)

lemma run_if_simps: "run_if False block st = st" "run_if True block st = block st"
  by (simp_all add: run_if_def)

lemma dirs_run_if_upper:
  "(\<And>s. dirs (on_disk (block s)) \<subseteq> dirs (on_disk s) \<union> B)
     \<Longrightarrow> dirs (on_disk (run_if c block st)) \<subseteq> dirs (on_disk st) \<union> B"
  by (auto simp: run_if_def)

lemma scaffold_templates_no_server:
  assumes "components config = [''server:api'', ''server:billing'']"
  shows "dirs (on_disk (scaffold_templates config tmpl st))
           \<subseteq> dirs (on_disk st)
              \<union> {''specs'', ''specs/domain'', ''components'', ''components/config'',
                 ''components/config/schemas''}"
proof -
  have p: "dirs (on_disk (fold (copy_if_exists tmpl config dir) PROJECT_FILES s))
             \<subseteq> dirs (on_disk s) \<union> {}" for dir s
    using dirs_fold_copy_if_exists_upper [of tmpl config dir PROJECT_FILES s]
    by (simp add: PROJECT_FILES_def file_chains)
  have q: "dirs (on_disk (fold (copy_if_exists tmpl config dir) SPEC_FILES s))
             \<subseteq> dirs (on_disk s) \<union> {''specs'', ''specs/domain''}" for dir s
    using dirs_fold_copy_if_exists_upper [of tmpl config dir SPEC_FILES s]
    by (auto simp: SPEC_FILES_def file_chains)
  have r: "dirs (on_disk (fold (copy_if_exists tmpl config dir)
                             (under ''components/config'' CONFIG_FILES) s))
             \<subseteq> dirs (on_disk s)
                \<union> {''components'', ''components/config'', ''components/config/schemas''}" for dir s
    using dirs_fold_copy_if_exists_upper
            [of tmpl config dir "under ''components/config'' CONFIG_FILES" s]
    by (auto simp: CONFIG_FILES_def under_def file_chains)
  define s1 where "s1 = run_if (path_exists tmpl (path_join (template_dir config) ''project''))
             (fold (copy_if_exists tmpl config (path_join (template_dir config) ''project''))
                   PROJECT_FILES) st"
  define s2 where "s2 = run_if (path_exists tmpl (path_join (template_dir config) ''specs''))
             (fold (copy_if_exists tmpl config (path_join (template_dir config) ''specs''))
                   SPEC_FILES) s1"
  define s3 where
    "s3 = write_text ''specs/architecture/overview.md'' (scaffold_arch_content config) s2"
  define s4 where
    "s4 = run_if (path_exists tmpl (path_join (template_dir config) ''components/config''))
             (fold (copy_if_exists tmpl config
                      (path_join (template_dir config) ''components/config''))
                   (under ''components/config'' CONFIG_FILES)) s3"
  have e: "scaffold_templates config tmpl st = s4"
    by (simp add: scaffold_templates_def Let_def assms run_if_simps s4_def s3_def s2_def s1_def)
  have b1: "dirs (on_disk s1) \<subseteq> dirs (on_disk st) \<union> {}"
    unfolding s1_def by (rule dirs_run_if_upper) (rule p)
  have b2: "dirs (on_disk s2) \<subseteq> dirs (on_disk s1) \<union> {''specs'', ''specs/domain''}"
    unfolding s2_def by (rule dirs_run_if_upper) (rule q)
  have b3: "dirs (on_disk s3) = dirs (on_disk s2)"
    unfolding s3_def by (rule dirs_write_text)
  have b4: "dirs (on_disk s4) \<subseteq> dirs (on_disk s3)
              \<union> {''components'', ''components/config'', ''components/config/schemas''}"
    unfolding s4_def by (rule dirs_run_if_upper) (rule r)
  have chain: "A4 \<subseteq> A0 \<union> (S \<union> C)"
    if "A1 \<subseteq> A0 \<union> {}" "A2 \<subseteq> A1 \<union> S" "A3 = A2" "A4 \<subseteq> A3 \<union> C"
    for A0 A1 A2 A3 A4 S C :: "string set"
    using that by blast
  show ?thesis
    unfolding e using chain [OF b1 b2 b3 b4] by (simp add: insert_commute)
qed

text \<open>
  Claim C2, as stated, fails for scaffold.py: it tests the component tokens themselves
  against \<open>server\<close>, so for the tokens \<open>server:api\<close> and \<open>server:billing\<close> it creates
  no server directory; here with no templates and an empty target.
\<close>

theorem scaffold_literal_tokens_counterexample:
  "''components/server-api'' \<notin>
     dirs (snd (scaffold_scaffold_project
                  \<lparr>project_name = ''app'', project_description = ''An app'',
                   primary_domain = ''General'', target_dir = ''/out'',
                   components = [''server:api'', ''server:billing''],
                   template_dir = ''/templates''\<rparr>
                  \<lparr>path_exists = (\<lambda>p. False), is_file = (\<lambda>p. False),
                   read_text = (\<lambda>p. []), rglob = (\<lambda>p. [])\<rparr>
                  \<lparr>target_made = False, dirs = {}, files = Map.empty\<rparr>))"
  by (simp add: scaffold_scaffold_project_def Let_def finish_def start_def scaffold_ci_def
                scaffold_templates_def run_if_simps scaffold_directories_no_server)

text \<open>
  Claim C2, amended. For the component list \<open>server:api\<close>, \<open>server:billing\<close>, whatever the
  other fields, the templates and the target hold: scaffolding.py leaves the two trees
  \<open>components/server-api\<close> and \<open>components/server-billing\<close> on disk, each with the six
  server subdirectories of its fixed list; scaffold.py adds no directory beyond the fixed
  specification and configuration directories.
\<close>

theorem scaffolding_two_server_trees:
  "{''components/server-api'',
    ''components/server-api/src/operator'',
    ''components/server-api/src/config'',
    ''components/server-api/src/controller/http_handlers'',
    ''components/server-api/src/model/definitions'',
    ''components/server-api/src/model/use-cases'',
    ''components/server-api/src/dal'',
    ''components/server-billing'',
    ''components/server-billing/src/operator'',
    ''components/server-billing/src/config'',
    ''components/server-billing/src/controller/http_handlers'',
    ''components/server-billing/src/model/definitions'',
    ''components/server-billing/src/model/use-cases'',
    ''components/server-billing/src/dal''}
   \<subseteq> dirs (snd (scaffolding_scaffold_project title
                  \<lparr>project_name = pn, project_description = pd, primary_domain = dm,
                   target_dir = td, components = [''server:api'', ''server:billing''],
                   skills_dir = sd\<rparr> tmpl dk))
   \<and> scaffolding_server_subdirs ''server-api''
       = [''components/server-api/src/operator'',
          ''components/server-api/src/config'',
          ''components/server-api/src/controller/http_handlers'',
          ''components/server-api/src/model/definitions'',
          ''components/server-api/src/model/use-cases'',
          ''components/server-api/src/dal'']
   \<and> dirs (snd (scaffold_scaffold_project
                  \<lparr>project_name = pn, project_description = pd, primary_domain = dm,
                   target_dir = td, components = [''server:api'', ''server:billing''],
                   template_dir = sd\<rparr> tmpl dk))
       \<subseteq> dirs dk
          \<union> {''specs'', ''specs/domain'', ''specs/domain/definitions'', ''specs/domain/use-cases'',
              ''specs/architecture'', ''specs/changes'', ''specs/external'',
              ''components'', ''components/config'', ''components/config/schemas''}"
proof -
  define new where "new = \<lparr>project_name = pn, project_description = pd, primary_domain = dm,
                   target_dir = td, components = [''server:api'', ''server:billing''],
                   skills_dir = sd\<rparr>"
  define old where "old = \<lparr>project_name = pn, project_description = pd, primary_domain = dm,
                   target_dir = td, components = [''server:api'', ''server:billing''],
                   template_dir = sd\<rparr>"
  define st0 where "st0 = write_text ''.gitignore'' GITIGNORE (start dk)"
  define st1 where "st1 = scaffolding_directories [''server:api'', ''server:billing''] st0"
  define st2 where "st2 = scaffold_directories {''server:api'', ''server:billing''} st0"
  have cn: "components new = [''server:api'', ''server:billing'']"
    by (simp add: new_def)
  have co: "components old = [''server:api'', ''server:billing'']"
    by (simp add: old_def)
  have n: "snd (scaffolding_scaffold_project title new tmpl dk)
             = on_disk (scaffolding_ci [''server:api'', ''server:billing'']
                          (scaffolding_templates title new tmpl st1))"
    by (simp add: scaffolding_scaffold_project_def Let_def finish_def cn st1_def st0_def)
  have a: "d \<in> dirs (on_disk st1) \<Longrightarrow> d \<in> dirs (snd (scaffolding_scaffold_project title new tmpl dk))"
    for d
    unfolding n by (intro in_dirs_scaffolding_ci in_dirs_scaffolding_templates)
  have c: "dirs (on_disk st1) \<subseteq> dirs (snd (scaffolding_scaffold_project title new tmpl dk))"
    using a by (rule subsetI)
  have A: "{''components/server-api'',
    ''components/server-api/src/operator'',
    ''components/server-api/src/config'',
    ''components/server-api/src/controller/http_handlers'',
    ''components/server-api/src/model/definitions'',
    ''components/server-api/src/model/use-cases'',
    ''components/server-api/src/dal'',
    ''components/server-billing'',
    ''components/server-billing/src/operator'',
    ''components/server-billing/src/config'',
    ''components/server-billing/src/controller/http_handlers'',
    ''components/server-billing/src/model/definitions'',
    ''components/server-billing/src/model/use-cases'',
    ''components/server-billing/src/dal''}
   \<subseteq> dirs (snd (scaffolding_scaffold_project title new tmpl dk))"
    unfolding st1_def [symmetric]
    using scaffolding_directories_two_servers [of st0] c
    unfolding st1_def by (rule subset_trans)
  have B: "scaffolding_server_subdirs ''server-api''
       = [''components/server-api/src/operator'',
          ''components/server-api/src/config'',
          ''components/server-api/src/controller/http_handlers'',
          ''components/server-api/src/model/definitions'',
          ''components/server-api/src/model/use-cases'',
          ''components/server-api/src/dal'']"
    by (simp add: scaffolding_server_subdirs_def)
  have o: "snd (scaffold_scaffold_project old tmpl dk)
             = on_disk (scaffold_ci {''server:api'', ''server:billing''}
                          (scaffold_templates old tmpl st2))"
    by (simp add: scaffold_scaffold_project_def Let_def finish_def co st2_def st0_def)
  have o2: "dirs (on_disk (scaffold_ci {''server:api'', ''server:billing''} s))
              = dirs (on_disk s)" for s
    by (simp add: scaffold_ci_def)
  have o3a: "dirs (on_disk st0) = dirs dk"
    by (simp add: st0_def start_def)
  have o3: "dirs (on_disk st2)
              = dirs dk \<union> {''specs'', ''specs/domain'', ''specs/domain/definitions'',
                   ''specs/domain/use-cases'', ''specs/architecture'', ''specs/changes'',
                   ''specs/external'', ''components'', ''components/config'',
                   ''components/config/schemas''}"
    unfolding st2_def scaffold_directories_no_server o3a by (rule refl)
  have chain: "X \<subseteq> D \<union> (F \<union> G)" if "X \<subseteq> Y \<union> G" "Y = D \<union> F"
    for X Y D F G :: "string set"
    using that by blast
  have b0: "dirs (snd (scaffold_scaffold_project old tmpl dk))
       \<subseteq> dirs dk
          \<union> ({''specs'', ''specs/domain'', ''specs/domain/definitions'', ''specs/domain/use-cases'',
              ''specs/architecture'', ''specs/changes'', ''specs/external'',
              ''components'', ''components/config'', ''components/config/schemas''}
             \<union> {''specs'', ''specs/domain'', ''components'', ''components/config'',
                ''components/config/schemas''})"
    unfolding o o2
    by (rule chain [OF scaffold_templates_no_server [OF co] o3])
  have u: "{''specs'', ''specs/domain'', ''specs/domain/definitions'', ''specs/domain/use-cases'',
              ''specs/architecture'', ''specs/changes'', ''specs/external'',
              ''components'', ''components/config'', ''components/config/schemas''}
             \<union> {''specs'', ''specs/domain'', ''components'', ''components/config'',
                ''components/config/schemas''}
           = {''specs'', ''specs/domain'', ''specs/domain/definitions'', ''specs/domain/use-cases'',
              ''specs/architecture'', ''specs/changes'', ''specs/external'',
              ''components'', ''components/config'', ''components/config/schemas''}"
    by (rule Un_absorb2) simp
  have b: "dirs (snd (scaffold_scaffold_project old tmpl dk))
       \<subseteq> dirs dk
          \<union> {''specs'', ''specs/domain'', ''specs/domain/definitions'', ''specs/domain/use-cases'',
              ''specs/architecture'', ''specs/changes'', ''specs/external'',
              ''components'', ''components/config'', ''components/config/schemas''}"
    using b0 unfolding u .
  from A B b show ?thesis
    unfolding new_def old_def by (intro conjI)
qed

subsection \<open>Scaffolder: configuration errors\<close>

text \<open>
  Claim C9, as stated, fails for scaffolding.py: a configuration without \<open>skills_dir\<close>,
  which the list \<open>required\<close> names, but with the legacy key \<open>template_dir\<close> is not
  refused. \<open>main\<close> derives \<open>skills_dir\<close> from the legacy key before the check, returns the
  exit status 0 and the target is written: here, with no templates and an empty target,
  the target directory, \<open>.gitignore\<close> and the directory \<open>specs\<close> exist afterwards.
\<close>

theorem legacy_template_dir_counterexample:
  "raw_skills_dir \<lparr>raw_project_name = Some ''app'', raw_project_description = None,
            raw_primary_domain = None, raw_target_dir = Some ''/out'',
            raw_components = Some [], raw_skills_dir = None,
            raw_template_dir = Some ''/plugin/templates''\<rparr> = None
   \<and> exit_code (scaffolding_main (\<lambda>s. s) ''config.json''
        (Some \<lparr>raw_project_name = Some ''app'', raw_project_description = None,
            raw_primary_domain = None, raw_target_dir = Some ''/out'',
            raw_components = Some [], raw_skills_dir = None,
            raw_template_dir = Some ''/plugin/templates''\<rparr>)
        \<lparr>path_exists = (\<lambda>p. False), is_file = (\<lambda>p. False), read_text = (\<lambda>p. []),
      rglob = (\<lambda>p. [])\<rparr>
        \<lparr>target_made = False, dirs = {}, files = Map.empty\<rparr>) = 0
   \<and> files (disk_after (scaffolding_main (\<lambda>s. s) ''config.json''
        (Some \<lparr>raw_project_name = Some ''app'', raw_project_description = None,
            raw_primary_domain = None, raw_target_dir = Some ''/out'',
            raw_components = Some [], raw_skills_dir = None,
            raw_template_dir = Some ''/plugin/templates''\<rparr>)
        \<lparr>path_exists = (\<lambda>p. False), is_file = (\<lambda>p. False), read_text = (\<lambda>p. []),
      rglob = (\<lambda>p. [])\<rparr>
        \<lparr>target_made = False, dirs = {}, files = Map.empty\<rparr>)) ''.gitignore'' = Some GITIGNORE
   \<and> target_made (disk_after (scaffolding_main (\<lambda>s. s) ''config.json''
        (Some \<lparr>raw_project_name = Some ''app'', raw_project_description = None,
            raw_primary_domain = None, raw_target_dir = Some ''/out'',
            raw_components = Some [], raw_skills_dir = None,
            raw_template_dir = Some ''/plugin/templates''\<rparr>)
        \<lparr>path_exists = (\<lambda>p. False), is_file = (\<lambda>p. False), read_text = (\<lambda>p. []),
      rglob = (\<lambda>p. [])\<rparr>
        \<lparr>target_made = False, dirs = {}, files = Map.empty\<rparr>))
   \<and> ''specs'' \<in> dirs (disk_after (scaffolding_main (\<lambda>s. s) ''config.json''
        (Some \<lparr>raw_project_name = Some ''app'', raw_project_description = None,
            raw_primary_domain = None, raw_target_dir = Some ''/out'',
            raw_components = Some [], raw_skills_dir = None,
            raw_template_dir = Some ''/plugin/templates''\<rparr>)
        \<lparr>path_exists = (\<lambda>p. False), is_file = (\<lambda>p. False), read_text = (\<lambda>p. []),
      rglob = (\<lambda>p. [])\<rparr>
        \<lparr>target_made = False, dirs = {}, files = Map.empty\<rparr>))"
proof -
  define full where "full = \<lparr>project_name = ''app'', project_description = ''A app project'',
            primary_domain = ''General'', target_dir = ''/out'', components = [],
            skills_dir = ''/plugin/skills''\<rparr>"
  define tree where "tree = \<lparr>path_exists = (\<lambda>p. False), is_file = (\<lambda>p. False), read_text = (\<lambda>p. []),
      rglob = (\<lambda>p. [])\<rparr>"
  define d0 where "d0 = \<lparr>target_made = False, dirs = {}, files = Map.empty\<rparr>"
  have l: "legacy_skills_dir ''/plugin/templates'' = ''/plugin/skills''"
    by (simp add: legacy_skills_dir_def path_root_def path_parts_def)
  have m: "scaffolding_main (\<lambda>s. s) ''config.json''
        (Some \<lparr>raw_project_name = Some ''app'', raw_project_description = None,
            raw_primary_domain = None, raw_target_dir = Some ''/out'',
            raw_components = Some [], raw_skills_dir = None,
            raw_template_dir = Some ''/plugin/templates''\<rparr>) tree d0
          = completed (scaffolding_scaffold_project (\<lambda>s. s) full tree d0)"
    by (simp add: scaffolding_main_def with_legacy_skills_dir_def l default_description_def
                  default_domain_def full_def)
  have d: "scaffolding_directories [] st
             = fold create_directory CONFIG_DIRS (fold create_directory SPECS_DIRS st)" for st
    by (simp add: scaffolding_directories_def Let_def run_if_def component_types_of_def
                  get_components_by_type_def)
  have t: "scaffolding_templates (\<lambda>s. s) full tree st
             = write_text ''specs/architecture/overview.md''
                 (scaffolding_arch_content (\<lambda>s. s) full) st" for st
    by (simp add: scaffolding_templates_def Let_def run_if_def component_types_of_def
                  get_components_by_type_def full_def tree_def)
  have c: "scaffolding_ci [] st = st" for st
    by (simp add: scaffolding_ci_def component_types_of_def)
  have cf: "components full = []" "target_dir full = ''/out''"
    by (simp_all add: full_def)
  have r: "scaffolding_scaffold_project (\<lambda>s. s) full tree d0
             = finish ''/out''
                 (write_text ''specs/architecture/overview.md''
                    (scaffolding_arch_content (\<lambda>s. s) full)
                    (fold create_directory CONFIG_DIRS
                       (fold create_directory SPECS_DIRS
                          (write_text ''.gitignore'' GITIGNORE (start d0)))))"
    by (simp add: scaffolding_scaffold_project_def Let_def cf d t c)
  have e: "exit_code (completed (scaffolding_scaffold_project (\<lambda>s. s) full tree d0)) = 0"
    by (simp add: r completed_def finish_def)
  have f: "files (disk_after (completed (scaffolding_scaffold_project (\<lambda>s. s) full tree d0)))
             ''.gitignore'' = Some GITIGNORE"
    by (simp add: r completed_def finish_def write_text_def files_fold_create_directory)
  have g: "target_made (disk_after (completed (scaffolding_scaffold_project (\<lambda>s. s) full tree d0)))"
    by (simp add: r completed_def finish_def write_text_def target_made_fold_create_directory
                  start_def mkdir_def)
  have h: "''specs'' \<in> dirs (disk_after (completed (scaffolding_scaffold_project (\<lambda>s. s) full tree d0)))"
    by (simp add: r completed_def finish_def dirs_fold_create_directory SPECS_DIRS_def dir_chains)
  show ?thesis
    using e f g h unfolding m [symmetric] unfolding tree_def d0_def by simp
qed

text \<open>
  Claim C9, amended. A configuration that lacks a required key makes \<open>main\<close> of either
  scaffolder return the exit status 1 with the line naming the first missing key on
  standard error, and the target tree is the one it was given: nothing is created. For
  scaffold.py the required keys are \<open>project_name\<close>, \<open>target_dir\<close>, \<open>components\<close> and
  \<open>template_dir\<close>. For scaffolding.py they are \<open>project_name\<close>, \<open>target_dir\<close>,
  \<open>components\<close> and \<open>skills_dir\<close>, where \<open>skills_dir\<close> counts as missing only when the
  legacy key \<open>template_dir\<close> is missing too: with the legacy key present and the other
  three keys given, \<open>main\<close> runs the scaffolder with \<open>skills_dir\<close> derived from it.
\<close>

theorem missing_required_key_fails_first:
  "(raw_project_name config = None \<or> raw_target_dir config = None
      \<or> raw_components config = None
      \<or> (raw_skills_dir config = None \<and> raw_template_dir config = None)
    \<longrightarrow> scaffolding_main title config_path (Some config) tmpl dk
          = \<lparr>exit_code = 1,
             stderr = [''Error: Missing required config field: ''
                         @ (if raw_project_name config = None then ''project_name''
                            else if raw_target_dir config = None then ''target_dir''
                            else if raw_components config = None then ''components''
                            else ''skills_dir'')],
             disk_after = dk\<rparr>)
   \<and> (raw_project_name config = None \<or> raw_target_dir config = None
      \<or> raw_components config = None \<or> raw_template_dir config = None
    \<longrightarrow> scaffold_main config_path (Some config) tmpl dk
          = \<lparr>exit_code = 1,
             stderr = [''Error: Missing required config field: ''
                         @ (if raw_project_name config = None then ''project_name''
                            else if raw_target_dir config = None then ''target_dir''
                            else if raw_components config = None then ''components''
                            else ''template_dir'')],
             disk_after = dk\<rparr>)
   \<and> (raw_project_name config = Some pname \<and> raw_target_dir config = Some tdir
      \<and> raw_components config = Some comps
      \<and> raw_skills_dir config = None \<and> raw_template_dir config = Some t
    \<longrightarrow> scaffolding_main title config_path (Some config) tmpl dk
          = completed (scaffolding_scaffold_project title
              \<lparr>project_name = pname,
               project_description = default_description pname (raw_project_description config),
               primary_domain = default_domain (raw_primary_domain config),
               target_dir = tdir, components = comps,
               skills_dir = legacy_skills_dir t\<rparr> tmpl dk))"
  by (auto simp: scaffolding_main_def scaffold_main_def with_legacy_skills_dir_def fail_def
                 missing_config_field_def Let_def
           split: option.splits)

theorem missing_required_key_fails_first_witness:
  "scaffolding_main (\<lambda>s. s) ''config.json''
     (Some \<lparr>raw_project_name = Some ''app'', raw_project_description = None,
            raw_primary_domain = None, raw_target_dir = Some ''/out'',
            raw_components = None, raw_skills_dir = Some ''/skills'',
            raw_template_dir = None\<rparr>)
     \<lparr>path_exists = (\<lambda>p. True), is_file = (\<lambda>p. True), read_text = (\<lambda>p. ''x''),
      rglob = (\<lambda>p. [''a.md''])\<rparr>
     \<lparr>target_made = False, dirs = {}, files = Map.empty\<rparr>
   = \<lparr>exit_code = 1, stderr = [''Error: Missing required config field: components''],
      disk_after = \<lparr>target_made = False, dirs = {}, files = Map.empty\<rparr>\<rparr>
   \<and> scaffold_main ''config.json''
     (Some \<lparr>raw_project_name = Some ''app'', raw_project_description = None,
            raw_primary_domain = None, raw_target_dir = Some ''/out'',
            raw_components = None, raw_skills_dir = Some ''/skills'',
            raw_template_dir = None\<rparr>)
     \<lparr>path_exists = (\<lambda>p. True), is_file = (\<lambda>p. True), read_text = (\<lambda>p. ''x''),
      rglob = (\<lambda>p. [''a.md''])\<rparr>
     \<lparr>target_made = False, dirs = {}, files = Map.empty\<rparr>
   = \<lparr>exit_code = 1, stderr = [''Error: Missing required config field: components''],
      disk_after = \<lparr>target_made = False, dirs = {}, files = Map.empty\<rparr>\<rparr>
   \<and> scaffolding_main (\<lambda>s. s) ''config.json''
     (Some \<lparr>raw_project_name = Some ''app'', raw_project_description = None,
            raw_primary_domain = None, raw_target_dir = Some ''/out'',
            raw_components = Some [], raw_skills_dir = None,
            raw_template_dir = Some ''/plugin/templates''\<rparr>)
     \<lparr>path_exists = (\<lambda>p. True), is_file = (\<lambda>p. True), read_text = (\<lambda>p. ''x''),
      rglob = (\<lambda>p. [''a.md''])\<rparr>
     \<lparr>target_made = False, dirs = {}, files = Map.empty\<rparr>
   = completed (scaffolding_scaffold_project (\<lambda>s. s)
        \<lparr>project_name = ''app'', project_description = ''A app project'',
            primary_domain = ''General'', target_dir = ''/out'', components = [],
            skills_dir = ''/plugin/skills''\<rparr>
        \<lparr>path_exists = (\<lambda>p. True), is_file = (\<lambda>p. True), read_text = (\<lambda>p. ''x''),
      rglob = (\<lambda>p. [''a.md''])\<rparr>
        \<lparr>target_made = False, dirs = {}, files = Map.empty\<rparr>)"
proof -
  have l: "legacy_skills_dir ''/plugin/templates'' = ''/plugin/skills''"
    by (simp add: legacy_skills_dir_def path_root_def path_parts_def)
  show ?thesis
    using missing_required_key_fails_first
      [of "\<lparr>raw_project_name = Some ''app'', raw_project_description = None,
            raw_primary_domain = None, raw_target_dir = Some ''/out'',
            raw_components = None, raw_skills_dir = Some ''/skills'',
            raw_template_dir = None\<rparr>" "\<lambda>s. s" "''config.json''"
          "\<lparr>path_exists = (\<lambda>p. True), is_file = (\<lambda>p. True), read_text = (\<lambda>p. ''x''),
      rglob = (\<lambda>p. [''a.md''])\<rparr>"
          "\<lparr>target_made = False, dirs = {}, files = Map.empty\<rparr>"]
      missing_required_key_fails_first
      [of "\<lparr>raw_project_name = Some ''app'', raw_project_description = None,
            raw_primary_domain = None, raw_target_dir = Some ''/out'',
            raw_components = Some [], raw_skills_dir = None,
            raw_template_dir = Some ''/plugin/templates''\<rparr>" "\<lambda>s. s" "''config.json''"
          "\<lparr>path_exists = (\<lambda>p. True), is_file = (\<lambda>p. True), read_text = (\<lambda>p. ''x''),
      rglob = (\<lambda>p. [''a.md''])\<rparr>"
          "\<lparr>target_made = False, dirs = {}, files = Map.empty\<rparr>"
          "''app''" "''/out''" "[]" "''/plugin/templates''"]
    by (simp add: l default_description_def default_domain_def)
qed

subsection \<open>Snapshot builder: the overview section\<close>




























end
